theory Spec2Isabelle
  imports Complex_Main "HOL-Library.Monad_Syntax" "HOL-Library.Sublist"
begin

section \<open>JavaScript values used by the compliance checker\<close>

text \<open>
  The checker (\<^verbatim>\<open>src/compliance/complianceChecker.js\<close>) and the model router
  (\<^verbatim>\<open>src/ai/modelRouter.js\<close>) are JavaScript. Strings are modelled as \<open>string\<close>
  with one \<open>char\<close> per code unit, a property that may be \<^verbatim>\<open>undefined\<close> as an
  \<open>option\<close>, and a thrown value as \<open>Inl\<close> of a sum.

  A JavaScript number is a double. A finite double is modelled by the rational number it
  stands for. Where the source computes with numbers (the score), \<^verbatim>\<open>NaN\<close> and the
  two infinities are values too, and the rounding of an exact sum or difference to the
  nearest double is a parameter \<open>fl\<close> of the model, about which a theorem assumes
  only what it states. The thresholds of the status, the costs and the confidence are
  finite numbers.

  An object that is read by key (\<^verbatim>\<open>config.roles\<close>, \<^verbatim>\<open>config.models\<close>,
  \<^verbatim>\<open>clients\<close>, \<^verbatim>\<open>usageStats\<close>, the severity weights) is a map from the key to what
  the lookup reads, \<open>None\<close> when it reads \<^verbatim>\<open>undefined\<close>. The values are typed as the
  shipped code and data make them. A lookup also finds the members of
  \<^verbatim>\<open>Object.prototype\<close>, which are neither numbers nor clients. The model follows that
  for the severity weights, whose key is written by the AI; the client names of a
  configuration are taken to be names of clients, or names that the lookup does not find.
\<close>

type_synonym number = rat

datatype exn = Error string | TypeError string

fun message :: "exn \<Rightarrow> string" where
  "message (Error m) = m"
| "message (TypeError m) = m"

text \<open>Truthiness of an optional string: \<^verbatim>\<open>undefined\<close> and \<^verbatim>\<open>''\<close> are falsy.\<close>

definition truthy :: "string option \<Rightarrow> bool" where
  "truthy s = (case s of None \<Rightarrow> False | Some t \<Rightarrow> t \<noteq> [])"

text \<open>\<^verbatim>\<open>a || b\<close> on optional strings.\<close>

definition str_or :: "string option \<Rightarrow> string option \<Rightarrow> string option" where
  "str_or a b = (if truthy a then a else b)"

text \<open>\<^verbatim>\<open>a || 'literal'\<close>: the result is always a string.\<close>

definition str_or_lit :: "string option \<Rightarrow> string \<Rightarrow> string" where
  "str_or_lit a d = (case a of None \<Rightarrow> d | Some t \<Rightarrow> if t = [] then d else t)"

text \<open>A value used as a property key: \<^verbatim>\<open>obj[undefined]\<close> reads the key \<^verbatim>\<open>"undefined"\<close>.\<close>

definition prop_key :: "string option \<Rightarrow> string" where
  "prop_key k = (case k of None \<Rightarrow> ''undefined'' | Some s \<Rightarrow> s)"

text \<open>
  A JavaScript number: \<^verbatim>\<open>NaN\<close>, one of the two infinities, or a finite number. The
  finite doubles are rationals; the model leaves out which rationals are doubles, and
  the negative zero, which no comparison tells from zero.
\<close>

datatype jsnum = NaN | NegInfinity | Fin number | PosInfinity

text \<open>\<^verbatim>\<open>a <= b\<close>: false if an operand is \<^verbatim>\<open>NaN\<close>.\<close>

fun num_le :: "jsnum \<Rightarrow> jsnum \<Rightarrow> bool" where
  "num_le NaN b = False"
| "num_le a NaN = False"
| "num_le NegInfinity b = True"
| "num_le a PosInfinity = True"
| "num_le (Fin x) (Fin y) = (x \<le> y)"
| "num_le PosInfinity b = False"
| "num_le a NegInfinity = False"

text \<open>
  \<^verbatim>\<open>a - b\<close> and \<^verbatim>\<open>a + b\<close>. On finite operands the exact result is rounded by
  \<open>fl\<close>: to the nearest double, or to an infinity when it is beyond the doubles.
  \<^verbatim>\<open>NaN\<close> if an operand is, and for two infinities that cancel.
\<close>

fun num_minus :: "(number \<Rightarrow> jsnum) \<Rightarrow> jsnum \<Rightarrow> jsnum \<Rightarrow> jsnum" where
  "num_minus fl (Fin x) (Fin y) = fl (x - y)"
| "num_minus fl NaN b = NaN"
| "num_minus fl a NaN = NaN"
| "num_minus fl PosInfinity PosInfinity = NaN"
| "num_minus fl NegInfinity NegInfinity = NaN"
| "num_minus fl PosInfinity b = PosInfinity"
| "num_minus fl NegInfinity b = NegInfinity"
| "num_minus fl (Fin x) PosInfinity = NegInfinity"
| "num_minus fl (Fin x) NegInfinity = PosInfinity"

fun num_plus :: "(number \<Rightarrow> jsnum) \<Rightarrow> jsnum \<Rightarrow> jsnum \<Rightarrow> jsnum" where
  "num_plus fl (Fin x) (Fin y) = fl (x + y)"
| "num_plus fl NaN b = NaN"
| "num_plus fl a NaN = NaN"
| "num_plus fl PosInfinity NegInfinity = NaN"
| "num_plus fl NegInfinity PosInfinity = NaN"
| "num_plus fl PosInfinity b = PosInfinity"
| "num_plus fl NegInfinity b = NegInfinity"
| "num_plus fl (Fin x) PosInfinity = PosInfinity"
| "num_plus fl (Fin x) NegInfinity = NegInfinity"

text \<open>\<^verbatim>\<open>Math.max\<close> and \<^verbatim>\<open>Math.min\<close> of two numbers: \<^verbatim>\<open>NaN\<close> if an argument is.\<close>

definition Math_max :: "jsnum \<Rightarrow> jsnum \<Rightarrow> jsnum" where
  "Math_max a b = (if a = NaN \<or> b = NaN then NaN else if num_le a b then b else a)"

definition Math_min :: "jsnum \<Rightarrow> jsnum \<Rightarrow> jsnum" where
  "Math_min a b = (if a = NaN \<or> b = NaN then NaN else if num_le a b then a else b)"

text \<open>
  \<^verbatim>\<open>Math.round\<close> of a finite number: the nearest integer, a tie going up. The result
  is exact, whatever the double.
\<close>

definition Math_round :: "number \<Rightarrow> int" where
  "Math_round x = \<lfloor>x + 1 / 2\<rfloor>"

text \<open>\<^verbatim>\<open>Math.round\<close> of any number: \<^verbatim>\<open>NaN\<close> and the infinities are returned as they are.\<close>

fun Math_round_num :: "jsnum \<Rightarrow> jsnum" where
  "Math_round_num (Fin x) = Fin (of_int (Math_round x))"
| "Math_round_num a = a"

subsection \<open>Characters and whitespace\<close>

text \<open>
  \<^verbatim>\<open>\s\<close> on code units below 256: tab, line feed, vertical tab, form feed, carriage
  return, space and the no-break space.
\<close>

definition is_space :: "char \<Rightarrow> bool" where
  "is_space c = (c \<in> {CHR 0x09, CHR 0x0A, CHR 0x0B, CHR 0x0C, CHR 0x0D, CHR 0x20, CHR 0xA0})"

definition is_digit :: "char \<Rightarrow> bool" where
  "is_digit c = ((48::nat) \<le> of_char c \<and> of_char c \<le> (57::nat))"

definition is_upper :: "char \<Rightarrow> bool" where
  "is_upper c = ((65::nat) \<le> of_char c \<and> of_char c \<le> (90::nat))"

definition is_lower :: "char \<Rightarrow> bool" where
  "is_lower c = ((97::nat) \<le> of_char c \<and> of_char c \<le> (122::nat))"

definition is_alpha :: "char \<Rightarrow> bool" where
  "is_alpha c = (is_upper c \<or> is_lower c)"

text \<open>\<^verbatim>\<open>\w\<close>: a letter, a digit or the underscore.\<close>

definition is_word :: "char \<Rightarrow> bool" where
  "is_word c = (is_alpha c \<or> is_digit c \<or> c = CHR ''_'')"

text \<open>
  \<^verbatim>\<open>toLowerCase\<close> on one code unit. Only the letters A to Z are mapped: no
  other code unit below 256 maps to an ASCII letter, and the source only looks for ASCII
  words in the result.
\<close>

definition to_lower :: "char \<Rightarrow> char" where
  "to_lower c = (if is_upper c then char_of (of_char c + (32::nat)) else c)"

definition toLowerCase :: "string \<Rightarrow> string" where
  "toLowerCase s = map to_lower s"

text \<open>\<^verbatim>\<open>s.startsWith(p)\<close> and \<^verbatim>\<open>s.includes(p)\<close>.\<close>

fun starts_with :: "string \<Rightarrow> string \<Rightarrow> bool" where
  "starts_with s [] = True"
| "starts_with [] (p # ps) = False"
| "starts_with (c # cs) (p # ps) = (c = p \<and> starts_with cs ps)"

fun str_includes :: "string \<Rightarrow> string \<Rightarrow> bool" where
  "str_includes [] p = (p = [])"
| "str_includes (c # cs) p = (starts_with (c # cs) p \<or> str_includes cs p)"

text \<open>
  \<^verbatim>\<open>s.split(/\s+/)\<close>: the pieces between maximal runs of whitespace. A run at the start
  or at the end of the string leaves an empty piece there, and the empty string gives
  one empty piece. \<open>split_ws_from in_run cur s\<close> scans \<open>s\<close> with the piece read so
  far in \<open>cur\<close>; \<open>in_run\<close> says that the previous character was whitespace.
\<close>

fun split_ws_from :: "bool \<Rightarrow> string \<Rightarrow> string \<Rightarrow> string list" where
  "split_ws_from in_run cur [] = [cur]"
| "split_ws_from in_run cur (c # cs) =
     (if is_space c then
        (if in_run then split_ws_from True cur cs else cur # split_ws_from True [] cs)
      else split_ws_from False (cur @ [c]) cs)"

definition split_ws :: "string \<Rightarrow> string list" where
  "split_ws s = split_ws_from False [] s"


section \<open>Data model of the compliance checker\<close>

text \<open>
  One entry of the rule file \<^verbatim>\<open>data/compliance/asqa-aqf-rules.json\<close>. The file
  itself is not part of the sources, so a rule set is a parameter of every function.
  \<open>r_pattern\<close>, \<open>r_flags\<close>, \<open>r_correction\<close> and \<open>r_examples_compliant\<close>
  (\<^verbatim>\<open>rule.examples.compliant\<close>) are optional.
\<close>

record rule =
  r_id :: string
  r_name :: string
  r_category :: string
  r_severity :: string
  r_description :: string
  r_pattern :: "string option"
  r_flags :: "string option"
  r_required :: bool
  r_correction :: "string option"
  r_examples_compliant :: "string option"
  r_asqa_reference :: string

record thresholds =
  excellent :: number
  good :: number
  acceptable :: number
  needs_improvement :: number

text \<open>
  \<^verbatim>\<open>rules.rules.*\<close> and \<^verbatim>\<open>rules.compliance_thresholds.*\<close>; the severity
  weights are an object read by key.
\<close>

record ruleset =
  critical_violations :: "rule list"
  required_terminology :: "rule list"
  required_disclaimers :: "rule list"
  web_specific_requirements :: "rule list"
  severity_weights :: "string \<rightharpoonup> jsnum"
  overall_score :: thresholds

text \<open>
  A violation, as \<^verbatim>\<open>performBasicChecks\<close> builds it and as the AI reports it.
  \<open>v_source\<close> is set only on violations merged from the AI.
\<close>

record violation =
  v_id :: string
  v_category :: string
  v_severity :: string
  v_description :: string
  v_text_found :: string
  v_location :: string
  v_recommendation :: "string option"
  v_asqa_reference :: "string option"
  v_source :: "string option"

record required_element =
  e_id :: string
  e_type :: string
  e_description :: string
  e_found :: bool
  e_location :: "string option"
  e_asqa_reference :: string

record passed_rule =
  p_id :: string
  p_category :: string
  p_type :: string
  p_description :: string
  p_status :: string
  p_message :: string
  p_location :: "string option"
  p_asqa_reference :: string

text \<open>
  The object \<^verbatim>\<open>combineResults\<close> returns; \<^verbatim>\<open>performBasicChecks\<close> returns the
  same three lists and \<^verbatim>\<open>method: 'rule_based'\<close>.
\<close>

record results =
  violations :: "violation list"
  required_elements :: "required_element list"
  passed_rules :: "passed_rule list"

record basic_results = results +
  b_method :: string

datatype status = PASS | PASS_WITH_NOTES | NEEDS_REVIEW | ACTION_REQUIRED | FAIL

section \<open>Location of a match\<close>

text \<open>
  \<^verbatim>\<open>estimateLocation(text, index)\<close>, lines 448 to 455:
  \<^verbatim>\<open>before = text.substring(0, index); wordCount = before.split(/\s+/).length\<close>.
\<close>

definition wordCount :: "string \<Rightarrow> nat \<Rightarrow> nat" where
  "wordCount txt index = length (split_ws (take index txt))"

definition estimateLocation :: "string \<Rightarrow> nat \<Rightarrow> string" where
  "estimateLocation txt index =
     (if wordCount txt index < 50 then ''beginning''
      else if wordCount txt index < 200 then ''middle''
      else ''end'')"

section \<open>Score and status\<close>

text \<open>
  The weights are an object made by \<^verbatim>\<open>JSON.parse\<close>: \<open>severity_weights\<close> holds its own
  properties, and a key that is not among them is looked up in \<^verbatim>\<open>Object.prototype\<close>,
  whose members are these. Each of them is a function (or, for \<^verbatim>\<open>__proto__\<close>, the
  prototype object itself): a truthy value that is not a number.
\<close>

definition object_prototype_names :: "string list" where
  "object_prototype_names =
     [''constructor'', ''__defineGetter__'', ''__defineSetter__'', ''hasOwnProperty'',
      ''__lookupGetter__'', ''__lookupSetter__'', ''isPrototypeOf'', ''propertyIsEnumerable'',
      ''toString'', ''valueOf'', ''__proto__'', ''toLocaleString'']"

text \<open>
  \<^verbatim>\<open>weights[violation.severity] || 10\<close>, as a number to subtract. An own weight is
  itself, but 0 and \<^verbatim>\<open>NaN\<close> are falsy and give 10. An inherited member is truthy, so
  it is kept, and subtracting it gives \<^verbatim>\<open>NaN\<close>. A key that is found nowhere gives 10.
\<close>

definition weight_of :: "(string \<rightharpoonup> jsnum) \<Rightarrow> string \<Rightarrow> jsnum" where
  "weight_of weights sev =
     (case weights sev of
        Some w \<Rightarrow> if w = Fin 0 \<or> w = NaN then Fin 10 else w
      | None \<Rightarrow> if sev \<in> set object_prototype_names then NaN else Fin 10)"

text \<open>The loop of lines 367 to 371: \<^verbatim>\<open>score -= weight\<close> for every violation.\<close>

fun deduct ::
  "(number \<Rightarrow> jsnum) \<Rightarrow> (string \<rightharpoonup> jsnum) \<Rightarrow> jsnum \<Rightarrow> violation list \<Rightarrow> jsnum" where
  "deduct fl weights score [] = score"
| "deduct fl weights score (v # vs) =
     deduct fl weights (num_minus fl score (weight_of weights (v_severity v))) vs"

text \<open>\<^verbatim>\<open>calculateComplianceScore(results)\<close>, lines 363 to 385.\<close>

definition calculateComplianceScore ::
  "(number \<Rightarrow> jsnum) \<Rightarrow> ruleset \<Rightarrow> 'a results_scheme \<Rightarrow> jsnum" where
  "calculateComplianceScore fl rules res =
     (let score = deduct fl (severity_weights rules) (Fin 100) (violations res);
          score = Math_max (Fin 0) score;
          score = (if required_elements res \<noteq> [] \<and> list_all e_found (required_elements res)
                   then Math_min (Fin 100) (num_plus fl score (Fin 5)) else score)
      in Math_round_num score)"

text \<open>\<^verbatim>\<open>determineStatus(score)\<close>, lines 387 to 395.\<close>

definition determineStatus :: "ruleset \<Rightarrow> number \<Rightarrow> status" where
  "determineStatus rules score =
     (let thresholds = overall_score rules in
      if score \<ge> excellent thresholds then PASS
      else if score \<ge> good thresholds then PASS_WITH_NOTES
      else if score \<ge> acceptable thresholds then NEEDS_REVIEW
      else if score \<ge> needs_improvement thresholds then ACTION_REQUIRED
      else FAIL)"

text \<open>
  \<^verbatim>\<open>determineStatus\<close> of a computed score. Every comparison with \<^verbatim>\<open>NaN\<close> is
  false, so the last line is reached; \<^verbatim>\<open>Infinity\<close> is above every threshold.
\<close>

fun determineStatus_num :: "ruleset \<Rightarrow> jsnum \<Rightarrow> status" where
  "determineStatus_num rules (Fin x) = determineStatus rules x"
| "determineStatus_num rules PosInfinity = PASS"
| "determineStatus_num rules NegInfinity = FAIL"
| "determineStatus_num rules NaN = FAIL"

section \<open>Merging the AI's violations\<close>

text \<open>
  What the checker reads of the AI's parsed answer: its \<^verbatim>\<open>violations\<close> property,
  which is absent or falsy, or an array of violations, or a truthy value that
  \<^verbatim>\<open>for ... of\<close> cannot iterate (a number, \<^verbatim>\<open>true\<close>, a plain object).
\<close>

datatype ai_violations = Absent | NotIterable | Items "violation list"

text \<open>
  \<^verbatim>\<open>aiResults\<close>, the object \<^verbatim>\<open>performAIAnalysis\<close> returns: the parsed answer
  with \<^verbatim>\<open>model\<close>, \<^verbatim>\<open>confidence\<close> and \<^verbatim>\<open>processing_time\<close> set over it.
\<close>

record ai_results =
  ai_violations :: ai_violations
  ai_model :: string
  ai_confidence :: number
  ai_processing_time :: int

text \<open>
  One round of the loop of lines 345 to 357: \<^verbatim>\<open>isDuplicate\<close> compares
  \<^verbatim>\<open>text_found\<close> and \<^verbatim>\<open>category\<close> with \<^verbatim>\<open>===\<close> against the list built so far.
\<close>

definition isDuplicate :: "violation list \<Rightarrow> violation \<Rightarrow> bool" where
  "isDuplicate existing aiViolation =
     list_ex (\<lambda>e. v_text_found e = v_text_found aiViolation
                 \<and> v_category e = v_category aiViolation) existing"

definition merge_one :: "violation list \<Rightarrow> violation \<Rightarrow> violation list" where
  "merge_one combined aiViolation =
     (if \<not> isDuplicate combined aiViolation
      then combined @ [aiViolation\<lparr>v_source := Some ''ai_analysis''\<rparr>]
      else combined)"

definition merge_violations :: "violation list \<Rightarrow> violation list \<Rightarrow> violation list" where
  "merge_violations ruleViolations aiViolations = foldl merge_one ruleViolations aiViolations"

text \<open>
  \<^verbatim>\<open>combineResults(basicResults, aiResults)\<close>, lines 335 to 361. \<^verbatim>\<open>aiResults\<close> is
  \<^verbatim>\<open>null\<close> (\<open>None\<close>) when no AI analysis was made. Iterating a value that is not
  iterable throws a \<^verbatim>\<open>TypeError\<close>.
\<close>

definition combineResults :: "basic_results \<Rightarrow> ai_results option \<Rightarrow> exn + results" where
  "combineResults basicResults aiResults =
     (let combined = \<lparr>violations = violations basicResults,
                      required_elements = required_elements basicResults,
                      passed_rules = passed_rules basicResults\<rparr>
      in case aiResults of
           None \<Rightarrow> Inr combined
         | Some ai \<Rightarrow>
             (case ai_violations ai of
                Absent \<Rightarrow> Inr combined
              | NotIterable \<Rightarrow> Inl (TypeError ''aiResults.violations is not iterable'')
              | Items aiViolations \<Rightarrow>
                  Inr (combined\<lparr>violations := merge_violations (violations combined) aiViolations\<rparr>)))"

section \<open>Recommendations\<close>

text \<open>\<^verbatim>\<open>[...new Set(xs)]\<close>: the first occurrence of every string, in order.\<close>

fun dedup_into :: "string list \<Rightarrow> string list \<Rightarrow> string list" where
  "dedup_into seen [] = seen"
| "dedup_into seen (x # xs) = dedup_into (if x \<in> set seen then seen else seen @ [x]) xs"

text \<open>\<^verbatim>\<open>generateRecommendations(results, pageType)\<close>, lines 397 to 423.\<close>

definition generateRecommendations :: "'a results_scheme \<Rightarrow> string \<Rightarrow> string list" where
  "generateRecommendations res pageType =
     (let recommendations =
            concat (map (\<lambda>v. if truthy (v_recommendation v) then [the (v_recommendation v)] else [])
                        (violations res));
          recommendations = recommendations @
            (if pageType = ''homepage'' then
               [''Ensure RTO number is prominently displayed on homepage'',
                ''Include clear contact information and privacy policy link'']
             else if pageType = ''course'' then
               [''Use '' @ [CHR 0x22] @ ''unit of competency'' @ [CHR 0x22] @ '' instead of ''
                  @ [CHR 0x22] @ ''course'' @ [CHR 0x22] @ '' when referring to unit codes'',
                ''Include RPL availability information'']
             else []);
          recommendations = recommendations @
            (if list_ex (\<lambda>v. v_severity v = ''critical'') (violations res) then
               [''Immediate action required: Address all critical violations before ASQA audit'']
             else [])
      in dedup_into [] recommendations)"

text \<open>\<^verbatim>\<open>getRuleRecommendation(rule)\<close>, lines 457 to 462.\<close>

definition getRuleRecommendation :: "rule \<Rightarrow> string" where
  "getRuleRecommendation r =
     (if truthy (r_examples_compliant r) then
        ''Example of compliant text: '' @ [CHR 0x22] @ the (r_examples_compliant r) @ [CHR 0x22]
      else ''Remove or revise the violating content to meet ASQA requirements'')"

section \<open>The platform: regular expressions, JSON and arithmetic\<close>

text \<open>
  The regular expression engine, \<^verbatim>\<open>JSON.parse\<close> and double arithmetic belong to the
  JavaScript platform, not to the repository: they are parameters. \<open>'r\<close> is the type of compiled
  regular expressions.
  \<^item> \<open>RegExp_new pattern flags\<close> is \<^verbatim>\<open>new RegExp(pattern, flags)\<close>; \<open>None\<close> when it
    throws a \<^verbatim>\<open>SyntaxError\<close>.
  \<^item> \<open>RegExp_exec regex lastIndex txt\<close> is \<^verbatim>\<open>regex.exec(txt)\<close> with the given
    \<^verbatim>\<open>lastIndex\<close>: \<open>None\<close> for \<^verbatim>\<open>null\<close>, else the matched text
    \<^verbatim>\<open>match[0]\<close>, \<^verbatim>\<open>match.index\<close> and the new \<^verbatim>\<open>lastIndex\<close>.
  \<^item> \<open>JSON_parse s\<close> is what the checker reads of \<^verbatim>\<open>JSON.parse(s)\<close>, the
    \<^verbatim>\<open>violations\<close> property of the parsed value; \<open>None\<close> when \<^verbatim>\<open>JSON.parse\<close>
    throws.
  \<^item> \<open>double_round x\<close> is what the exact result \<open>x\<close> of an addition or a
    subtraction of two finite doubles is rounded to: a double, or an infinity.
\<close>

record 'r platform =
  RegExp_new :: "string \<Rightarrow> string \<Rightarrow> 'r option"
  RegExp_exec :: "'r \<Rightarrow> nat \<Rightarrow> string \<Rightarrow> ((string \<times> nat) \<times> nat) option"
  JSON_parse :: "string \<Rightarrow> ai_violations option"
  double_round :: "number \<Rightarrow> jsnum"

subsection \<open>The two regular expression literals of the source\<close>

text \<open>
  The literals of lines 189 and 206 are only tested for a match somewhere in the text
  (\<^verbatim>\<open>text.match(...)\<close> as a condition), and they are simple enough to be matched
  here: a sequence of character classes, each repeated between a lower and an optional
  upper bound. \<open>match_atoms\<close> says whether a prefix of the string matches the sequence,
  trying every number of repetitions as backtracking does.
\<close>

type_synonym atom = "(char \<Rightarrow> bool) \<times> nat \<times> nat option"

fun match_atoms :: "atom list \<Rightarrow> string \<Rightarrow> bool" where
  "match_atoms [] s = True"
| "match_atoms (a # as) s =
     (let n = length (takeWhile (fst a) s);
          top = (case snd (snd a) of None \<Rightarrow> n | Some h \<Rightarrow> min h n)
      in list_ex (\<lambda>k. match_atoms as (drop k s)) [fst (snd a) ..< Suc top])"

definition re_test :: "atom list \<Rightarrow> string \<Rightarrow> bool" where
  "re_test atoms s = list_ex (\<lambda>i. match_atoms atoms (drop i s)) [0 ..< Suc (length s)]"

text \<open>\<^verbatim>\<open>\d{2,3}[\s-]?\d{3,4}[\s-]?\d{3,4}\<close>\<close>

definition phone_re :: "atom list" where
  "phone_re =
     [(is_digit, 2, Some 3), (\<lambda>c. is_space c \<or> c = CHR ''-'', 0, Some 1),
      (is_digit, 3, Some 4), (\<lambda>c. is_space c \<or> c = CHR ''-'', 0, Some 1),
      (is_digit, 3, Some 4)]"

text \<open>\<^verbatim>\<open>[a-zA-Z0-9._%+-]+@[a-zA-Z0-9.-]+\.[a-zA-Z]{2,}\<close>\<close>

definition email_re :: "atom list" where
  "email_re =
     [(\<lambda>c. is_alpha c \<or> is_digit c \<or> c \<in> set ''._%+-'', 1, None),
      (\<lambda>c. c = CHR ''@'', 1, Some 1),
      (\<lambda>c. is_alpha c \<or> is_digit c \<or> c \<in> set ''.-'', 1, None),
      (\<lambda>c. c = CHR ''.'', 1, Some 1),
      (is_alpha, 2, None)]"

text \<open>Line 189: the phone number or the e-mail address.\<close>

definition contact_test :: "string \<Rightarrow> bool" where
  "contact_test txt = (re_test phone_re txt \<or> re_test email_re txt)"

text \<open>
  Line 206, \<^verbatim>\<open>/\$\d+|\bfee|\bcost|\bprice|\btuition/i\<close>. \<open>prev\<close> is the character before
  the position looked at: \<^verbatim>\<open>\b\<close> before a letter holds at the start of the text and
  after a character that is not a word character.
\<close>

fun fee_search :: "char option \<Rightarrow> string \<Rightarrow> bool" where
  "fee_search prev [] = False"
| "fee_search prev (c # cs) =
     ((c = CHR ''$'' \<and> (case cs of [] \<Rightarrow> False | d # _ \<Rightarrow> is_digit d))
      \<or> ((case prev of None \<Rightarrow> True | Some q \<Rightarrow> \<not> is_word q)
          \<and> list_ex (starts_with (toLowerCase (c # cs))) [''fee'', ''cost'', ''price'', ''tuition''])
      \<or> fee_search (Some c) cs)"

definition fee_test :: "string \<Rightarrow> bool" where
  "fee_test txt = fee_search None txt"

section \<open>Rule evaluation\<close>

record match =
  m_text :: string
  m_index :: nat
  m_location :: string

text \<open>
  The loop of lines 434 to 440, \<^verbatim>\<open>while ((match = regex.exec(text)) !== null)\<close>. It
  need not end (a regular expression without the \<^verbatim>\<open>g\<close> flag finds its first match
  again and again), so the loop is a partial function: \<open>None\<close> means that it runs
  forever.
\<close>

partial_function (option) exec_loop ::
  "'r platform \<Rightarrow> 'r \<Rightarrow> nat \<Rightarrow> string \<Rightarrow> match list \<Rightarrow> match list option" where
  "exec_loop pf regex lastIndex txt matches =
     (case RegExp_exec pf regex lastIndex txt of
        None \<Rightarrow> Some matches
      | Some m \<Rightarrow>
          exec_loop pf regex (snd m) txt
            (matches @ [\<lparr>m_text = fst (fst m), m_index = snd (fst m),
                          m_location = estimateLocation txt (snd (fst m))\<rparr>]))"

declare exec_loop.simps [code]

text \<open>
  \<^verbatim>\<open>findMatches(text, rule)\<close>, lines 425 to 446. A \<^verbatim>\<open>SyntaxError\<close> of
  \<^verbatim>\<open>new RegExp\<close> is caught (line 441) and the empty list is returned.
\<close>

definition findMatches :: "'r platform \<Rightarrow> string \<Rightarrow> rule \<Rightarrow> match list option" where
  "findMatches pf txt rule =
     (if \<not> truthy (r_pattern rule) \<or> txt = [] then Some []
      else case RegExp_new pf (the (r_pattern rule)) (str_or_lit (r_flags rule) ''gi'') of
             None \<Rightarrow> Some []
           | Some regex \<Rightarrow> exec_loop pf regex 0 txt [])"

record link =
  l_text :: string
  l_href :: string

text \<open>The content handed to the checker: \<^verbatim>\<open>text\<close>, \<^verbatim>\<open>links\<close> and \<^verbatim>\<open>method\<close>.\<close>

record content =
  c_text :: "string option"
  c_links :: "link list option"
  c_method :: "string option"

text \<open>\<^verbatim>\<open>s.replace('_', ' ')\<close>: only the first underscore is replaced.\<close>

fun replace_first_underscore :: "string \<Rightarrow> string" where
  "replace_first_underscore [] = []"
| "replace_first_underscore (c # cs) =
     (if c = CHR ''_'' then CHR '' '' # cs else c # replace_first_underscore cs)"

text \<open>The violation built from a match of a rule (lines 99 to 108 and 127 to 136).\<close>

definition match_violation :: "rule \<Rightarrow> string option \<Rightarrow> match \<Rightarrow> violation" where
  "match_violation rule recommendation m =
     \<lparr>v_id = r_id rule, v_category = r_category rule, v_severity = r_severity rule,
      v_description = r_description rule, v_text_found = m_text m,
      v_location = m_location m, v_recommendation = recommendation,
      v_asqa_reference = Some (r_asqa_reference rule), v_source = None\<rparr>"

text \<open>The violation for an element that is missing (lines 155 to 164 and 224 to 233).\<close>

definition missing_violation :: "rule \<Rightarrow> string \<Rightarrow> violation" where
  "missing_violation rule what =
     \<lparr>v_id = r_id rule, v_category = r_category rule, v_severity = r_severity rule,
      v_description = what @ r_description rule, v_text_found = [],
      v_location = ''entire_page'', v_recommendation = Some (''Add: '' @ r_description rule),
      v_asqa_reference = Some (r_asqa_reference rule), v_source = None\<rparr>"

text \<open>Lines 96 to 121: the rules of \<^verbatim>\<open>critical_violations\<close>, in order.\<close>

fun check_critical :: "'r platform \<Rightarrow> string \<Rightarrow> rule list \<Rightarrow> results \<Rightarrow> results option" where
  "check_critical pf txt [] acc = Some acc"
| "check_critical pf txt (rule # rest) acc =
     (case findMatches pf txt rule of
        None \<Rightarrow> None
      | Some matches \<Rightarrow>
          check_critical pf txt rest
            (if length matches > 0 then
               acc\<lparr>violations := violations acc @
                      map (match_violation rule (Some (getRuleRecommendation rule))) matches\<rparr>
             else
               acc\<lparr>passed_rules := passed_rules acc @
                 [\<lparr>p_id = r_id rule, p_category = r_category rule,
                   p_type = ''critical_violation'', p_description = r_description rule,
                   p_status = ''passed'',
                   p_message = ''No forbidden '' @ replace_first_underscore (r_name rule) @ '' found'',
                   p_location = None, p_asqa_reference = r_asqa_reference rule\<rparr>]\<rparr>))"

text \<open>Lines 124 to 149: the rules of \<^verbatim>\<open>required_terminology\<close>.\<close>

fun check_terminology :: "'r platform \<Rightarrow> string \<Rightarrow> rule list \<Rightarrow> results \<Rightarrow> results option" where
  "check_terminology pf txt [] acc = Some acc"
| "check_terminology pf txt (rule # rest) acc =
     (case findMatches pf txt rule of
        None \<Rightarrow> None
      | Some matches \<Rightarrow>
          check_terminology pf txt rest
            (if length matches > 0 then
               acc\<lparr>violations := violations acc @
                      map (match_violation rule (r_correction rule)) matches\<rparr>
             else
               acc\<lparr>passed_rules := passed_rules acc @
                 [\<lparr>p_id = r_id rule, p_category = r_category rule,
                   p_type = ''required_terminology'', p_description = r_description rule,
                   p_status = ''passed'',
                   p_message = ''Correct terminology used - no ''
                     @ replace_first_underscore (r_name rule) @ '' violations found'',
                   p_location = None, p_asqa_reference = r_asqa_reference rule\<rparr>]\<rparr>))"

text \<open>Lines 152 to 174: the rules of \<^verbatim>\<open>required_disclaimers\<close>.\<close>

fun check_disclaimers :: "'r platform \<Rightarrow> string \<Rightarrow> rule list \<Rightarrow> results \<Rightarrow> results option" where
  "check_disclaimers pf txt [] acc = Some acc"
| "check_disclaimers pf txt (rule # rest) acc =
     (case findMatches pf txt rule of
        None \<Rightarrow> None
      | Some matches \<Rightarrow>
          check_disclaimers pf txt rest
            (if length matches = 0 \<and> r_required rule then
               acc\<lparr>violations := violations acc @
                      [missing_violation rule ''Missing required disclaimer: '']\<rparr>
             else if length matches > 0 then
               acc\<lparr>required_elements := required_elements acc @
                 [\<lparr>e_id = r_id rule, e_type = ''disclaimer'', e_description = r_description rule,
                   e_found = True, e_location = None,
                   e_asqa_reference = r_asqa_reference rule\<rparr>]\<rparr>
             else acc))"

text \<open>\<^verbatim>\<open>content.links && content.links.some(p)\<close>\<close>

definition some_link :: "content \<Rightarrow> (link \<Rightarrow> bool) \<Rightarrow> bool" where
  "some_link cont p = (case c_links cont of None \<Rightarrow> False | Some ls \<Rightarrow> list_ex p ls)"

text \<open>
  The \<^verbatim>\<open>switch (rule.id)\<close> of lines 181 to 221: \<^verbatim>\<open>found\<close> and \<^verbatim>\<open>location\<close>,
  which start as \<^verbatim>\<open>false\<close> and the empty string.
\<close>

definition web_requirement :: "content \<Rightarrow> string \<Rightarrow> string \<Rightarrow> bool \<times> string" where
  "web_requirement cont txt rid =
     (if rid = ''ws_001'' then
        (if some_link cont (\<lambda>l. str_includes (toLowerCase (l_text l)) ''contact''
                               \<or> str_includes (toLowerCase (l_href l)) ''contact'')
         then (True, ''navigation'')
         else if contact_test txt then (True, ''content'')
         else (False, []))
      else if rid = ''ws_002'' then
        (if some_link cont (\<lambda>l. str_includes (toLowerCase (l_text l)) ''privacy''
                               \<and> str_includes (toLowerCase (l_text l)) ''policy'')
         then (True, ''navigation'') else (False, []))
      else if rid = ''ws_003'' then
        (if fee_test txt then (True, ''content'') else (False, []))
      else if rid = ''ws_004'' then
        (if some_link cont (\<lambda>l. str_includes (toLowerCase (l_text l)) ''refund''
                               \<and> str_includes (toLowerCase (l_text l)) ''policy'')
         then (True, ''navigation'') else (False, []))
      else (False, []))"

text \<open>Lines 177 to 256: the rules of \<^verbatim>\<open>web_specific_requirements\<close>.\<close>

fun check_web :: "content \<Rightarrow> string \<Rightarrow> rule list \<Rightarrow> results \<Rightarrow> results" where
  "check_web cont txt [] acc = acc"
| "check_web cont txt (rule # rest) acc =
     (let found = fst (web_requirement cont txt (r_id rule));
          location = snd (web_requirement cont txt (r_id rule))
      in check_web cont txt rest
           (if \<not> found \<and> r_required rule then
              acc\<lparr>violations := violations acc @
                     [missing_violation rule ''Missing required web element: '']\<rparr>
            else if found then
              acc\<lparr>required_elements := required_elements acc @
                     [\<lparr>e_id = r_id rule, e_type = ''web_requirement'',
                       e_description = r_description rule, e_found = True,
                       e_location = Some location, e_asqa_reference = r_asqa_reference rule\<rparr>],
                  passed_rules := passed_rules acc @
                     [\<lparr>p_id = r_id rule, p_category = r_category rule,
                       p_type = ''web_requirement'', p_description = r_description rule,
                       p_status = ''passed'',
                       p_message = ''Required web element found: '' @ r_description rule,
                       p_location = Some location, p_asqa_reference = r_asqa_reference rule\<rparr>]\<rparr>
            else acc))"

text \<open>
  \<^verbatim>\<open>performBasicChecks(content, pageType)\<close>, lines 89 to 264; the page type is not
  read. \<open>None\<close> when a rule's matching loop does not end.
\<close>

definition performBasicChecks :: "'r platform \<Rightarrow> ruleset \<Rightarrow> content \<Rightarrow> basic_results option" where
  "performBasicChecks pf rules cont =
     (let txt = str_or_lit (c_text cont) [] in
      do {
        acc1 \<leftarrow> check_critical pf txt (critical_violations rules)
                  \<lparr>violations = [], required_elements = [], passed_rules = []\<rparr>;
        acc2 \<leftarrow> check_terminology pf txt (required_terminology rules) acc1;
        acc3 \<leftarrow> check_disclaimers pf txt (required_disclaimers rules) acc2;
        let acc4 = check_web cont txt (web_specific_requirements rules) acc3;
        Some \<lparr>violations = violations acc4, required_elements = required_elements acc4,
              passed_rules = passed_rules acc4, b_method = ''rule_based''\<rparr>
      })"

section \<open>The model router\<close>

text \<open>
  \<^verbatim>\<open>src/ai/modelRouter.js\<close>. A client wraps one provider
  (\<^verbatim>\<open>openaiClient.js\<close>, \<^verbatim>\<open>anthropicClient.js\<close>, \<^verbatim>\<open>deepseekClient.js\<close>); the router
  only uses three of its methods. \<^verbatim>\<open>generateText\<close> is a network call: it returns an
  object or throws, and here its outcome is a function of the prompt and the options.
\<close>

record usage =
  total_tokens :: "nat option"
  prompt_tokens :: "nat option"
  completion_tokens :: "nat option"
  input_tokens :: "nat option"
  output_tokens :: "nat option"

record gen_options =
  temperature :: "number option"
  maxTokens :: "nat option"

text \<open>What a client returns: some clients fill \<^verbatim>\<open>text\<close>, others \<^verbatim>\<open>content\<close>.\<close>

record gen_result =
  g_text :: "string option"
  g_content :: "string option"
  g_usage :: "usage option"
  g_model :: "string option"

text \<open>What the router returns: the client's object with \<^verbatim>\<open>text\<close> set to a string.\<close>

record ai_response =
  a_text :: string
  a_content :: "string option"
  a_usage :: "usage option"
  a_model :: "string option"

record client =
  isConfigured :: bool
  generateText :: "string \<Rightarrow> gen_options \<Rightarrow> exn + gen_result"
  calculateCost :: "usage \<Rightarrow> number"

record role_config =
  primary :: "string option"
  primary_model :: "string option"
  fallback :: "string option"
  fallback_model :: "string option"

record model_config =
  provider :: "string option"

record router_config =
  roles :: "string \<rightharpoonup> role_config"
  models :: "string \<rightharpoonup> model_config"

record usage_stat =
  calls :: nat
  tokens :: nat
  cost :: number

text \<open>
  The router object. \<open>generateText_log\<close> is not a field of the source: it records, in
  order, the name of every client whose \<^verbatim>\<open>generateText\<close> the router has called, so
  that "was never invoked" can be stated.
\<close>

record router =
  config :: router_config
  clients :: "string \<rightharpoonup> client"
  totalCost :: number
  usageStats :: "string \<rightharpoonup> usage_stat"
  generateText_log :: "string list"

text \<open>\<^verbatim>\<open>getClient(name)\<close>, line 207.\<close>

definition getClient :: "router \<Rightarrow> string option \<Rightarrow> client option" where
  "getClient r name = clients r (prop_key name)"

text \<open>
  Lines 225 to 227:
  \<^verbatim>\<open>usage.total_tokens || (usage.prompt_tokens + usage.completion_tokens) || (usage.input_tokens + usage.output_tokens) || 0\<close>.
  A sum with an \<^verbatim>\<open>undefined\<close> operand is \<^verbatim>\<open>NaN\<close>, which is falsy like 0.
\<close>

definition sum_or_zero :: "nat option \<Rightarrow> nat option \<Rightarrow> nat" where
  "sum_or_zero a b = (case a of None \<Rightarrow> 0 | Some x \<Rightarrow> (case b of None \<Rightarrow> 0 | Some y \<Rightarrow> x + y))"

definition usage_tokens :: "usage \<Rightarrow> nat" where
  "usage_tokens u =
     (if total_tokens u \<noteq> None \<and> total_tokens u \<noteq> Some 0 then the (total_tokens u)
      else if sum_or_zero (prompt_tokens u) (completion_tokens u) \<noteq> 0
        then sum_or_zero (prompt_tokens u) (completion_tokens u)
      else sum_or_zero (input_tokens u) (output_tokens u))"

text \<open>\<^verbatim>\<open>trackUsage(clientName, usage)\<close>, lines 213 to 239.\<close>

definition trackUsage :: "router \<Rightarrow> string option \<Rightarrow> usage option \<Rightarrow> router" where
  "trackUsage r clientName u =
     (let key = prop_key clientName;
          stat = (case usageStats r key of
                    None \<Rightarrow> \<lparr>calls = 0, tokens = 0, cost = 0\<rparr> | Some s \<Rightarrow> s);
          stat = stat\<lparr>calls := calls stat + 1\<rparr>
      in case u of
           None \<Rightarrow> r\<lparr>usageStats := (usageStats r)(key \<mapsto> stat)\<rparr>
         | Some us \<Rightarrow>
             (let stat = stat\<lparr>tokens := tokens stat + usage_tokens us\<rparr> in
              case clients r key of
                None \<Rightarrow> r\<lparr>usageStats := (usageStats r)(key \<mapsto> stat)\<rparr>
              | Some c \<Rightarrow>
                  r\<lparr>usageStats := (usageStats r)(key \<mapsto> stat\<lparr>cost := cost stat + calculateCost c us\<rparr>),
                    totalCost := totalCost r + calculateCost c us\<rparr>))"

text \<open>Lines 147 to 150 and 172 to 175: \<^verbatim>\<open>text: result.text || result.content || ''\<close>.\<close>

definition normalized :: "gen_result \<Rightarrow> ai_response" where
  "normalized result =
     \<lparr>a_text = str_or_lit (str_or (g_text result) (g_content result)) [],
      a_content = g_content result, a_usage = g_usage result, a_model = g_model result\<rparr>"

text \<open>
  The guarded call that stands twice in \<^verbatim>\<open>callWithFailover\<close> (lines 135 to 151 for the
  primary, 161 to 176 for the fallback): if the client exists and is configured, call
  its \<^verbatim>\<open>generateText\<close>, and on success track the usage and normalise the result.
  \<open>None\<close>: the client was not called. \<open>Some (Inl e)\<close>: it was called and threw \<open>e\<close>.
  What is done with a thrown error differs between the two places and is written in
  \<open>callWithFailover\<close>.
\<close>

definition attempt ::
  "router \<Rightarrow> string option \<Rightarrow> string \<Rightarrow> gen_options \<Rightarrow> (exn + ai_response) option \<times> router" where
  "attempt r clientName prompt options =
     (case getClient r clientName of
        None \<Rightarrow> (None, r)
      | Some c \<Rightarrow>
          if isConfigured c then
            (let r1 = r\<lparr>generateText_log := generateText_log r @ [prop_key clientName]\<rparr> in
             case generateText c prompt options of
               Inl e \<Rightarrow> (Some (Inl e), r1)
             | Inr result \<Rightarrow> (Some (Inr (normalized result)), trackUsage r1 clientName (g_usage result)))
          else (None, r))"

text \<open>Lines 111 to 127: from the role's configuration to the two client names.\<close>

definition primaryClientName :: "router_config \<Rightarrow> role_config \<Rightarrow> string option" where
  "primaryClientName cfg roleConfig =
     (let primaryModel = str_or (primary roleConfig) (primary_model roleConfig) in
      case models cfg (prop_key primaryModel) of
        None \<Rightarrow> primaryModel
      | Some m \<Rightarrow> provider m)"

definition fallbackClientName :: "router_config \<Rightarrow> role_config \<Rightarrow> string option" where
  "fallbackClientName cfg roleConfig =
     (let fallbackModel = str_or (fallback roleConfig) (fallback_model roleConfig) in
      if truthy fallbackModel then
        (case models cfg (prop_key fallbackModel) of
           None \<Rightarrow> fallbackModel
         | Some m \<Rightarrow> provider m)
      else fallbackModel)"

definition NoProviderAvailable :: "string \<Rightarrow> exn" where
  "NoProviderAvailable role = Error (''No configured AI models available for role: '' @ role)"

text \<open>
  \<^verbatim>\<open>callWithFailover(role, prompt, options)\<close>, lines 103 to 181. The primary's call is
  inside \<^verbatim>\<open>try\<close>: a thrown error is logged and dropped (line 153). The fallback's
  call is not: its error is the function's.
\<close>

definition callWithFailover ::
  "router \<Rightarrow> string \<Rightarrow> string \<Rightarrow> gen_options \<Rightarrow> (exn + ai_response) \<times> router" where
  "callWithFailover r role prompt options =
     (case roles (config r) role of
        None \<Rightarrow> (Inl (Error (''Unknown role: '' @ role)), r)
      | Some roleConfig \<Rightarrow>
          (case attempt r (primaryClientName (config r) roleConfig) prompt options of
             (Some (Inr normalizedResult), r1) \<Rightarrow> (Inr normalizedResult, r1)
           | (_, r1) \<Rightarrow>
               if truthy (fallbackClientName (config r) roleConfig) then
                 (case attempt r1 (fallbackClientName (config r) roleConfig) prompt options of
                    (Some (Inr normalizedResult), r2) \<Rightarrow> (Inr normalizedResult, r2)
                  | (Some (Inl e), r2) \<Rightarrow> (Inl e, r2)
                  | (None, r2) \<Rightarrow> (Inl (NoProviderAvailable role), r2))
               else (Inl (NoProviderAvailable role), r1)))"

section \<open>The compliance check\<close>

definition quoted :: "string \<Rightarrow> string" where
  "quoted s = [CHR 0x22] @ s @ [CHR 0x22]"

definition unlines :: "string list \<Rightarrow> string" where
  "unlines ls = (case ls of [] \<Rightarrow> [] | l # rest \<Rightarrow> l @ concat (map (\<lambda>x. CHR 0x0A # x) rest))"

text \<open>
  \<^verbatim>\<open>buildAIPrompt(content, pageType)\<close>, lines 301 to 333; the content is
  \<^verbatim>\<open>content.text?.substring(0, 8000) || ''\<close>.
\<close>

definition buildAIPrompt :: "content \<Rightarrow> string \<Rightarrow> string" where
  "buildAIPrompt cont pageType = unlines
     [''You are an expert ASQA/AQF compliance analyst. Analyze this RTO web content for compliance violations.'',
      [],
      ''Page Type: '' @ pageType,
      ''Content: '' @ str_or_lit (map_option (take 8000) (c_text cont)) [],
      [],
      ''Analyze against these ASQA/AQF requirements:'',
      ''1. Forbidden claims: employment guarantees, salary promises, completion time guarantees'',
      ''2. Required terminology: proper use of '' @ quoted ''unit'' @ '' vs '' @ quoted ''course''
         @ '', RTO identification'',
      ''3. Required disclaimers: RPL availability, nationally recognised training'',
      ''4. Web requirements: contact info, privacy policy, fee disclosure'',
      ''5. Marketing guidelines: accurate claims, verifiable testimonials'',
      [],
      ''Provide your analysis in this exact JSON format:'',
      ''{'',
      ''  '' @ quoted ''compliance_score'' @ '': 0-100,'',
      ''  '' @ quoted ''violations'' @ '': ['',
      ''    {'',
      ''      '' @ quoted ''id'' @ '': '' @ quoted ''rule_id'' @ '','',
      ''      '' @ quoted ''category'' @ '': ''
         @ quoted ''critical_violations|required_terminology|required_disclaimers|web_specific_requirements''
         @ '','',
      ''      '' @ quoted ''severity'' @ '': '' @ quoted ''critical|moderate|warning'' @ '','',
      ''      '' @ quoted ''description'' @ '': '' @ quoted ''specific issue description'' @ '','',
      ''      '' @ quoted ''text_found'' @ '': '' @ quoted ''exact text that violates the rule'' @ '','',
      ''      '' @ quoted ''location'' @ '': '' @ quoted ''where in the content this was found'' @ '','',
      ''      '' @ quoted ''recommendation'' @ '': '' @ quoted ''specific fix recommendation'',
      ''    }'',
      ''  ],'',
      ''  '' @ quoted ''recommendations'' @ '': ['' @ quoted ''improvement suggestions'' @ ''],'',
      ''  '' @ quoted ''summary'' @ '': '' @ quoted ''brief analysis summary'',
      ''}'',
      [],
      ''Be thorough but practical. Focus on actual violations that would impact ASQA compliance.'']"

text \<open>
  What a call reads from outside the program: the rule file as \<^verbatim>\<open>loadRules\<close> finds it
  (\<open>None\<close> when reading or parsing it throws), the scan id (\<^verbatim>\<open>Date.now()\<close> and
  \<^verbatim>\<open>Math.random()\<close>), the time stamp, and the milliseconds the AI analysis took.
\<close>

record ambient =
  rules_file :: "ruleset option"
  new_scan_id :: string
  now_iso :: string
  elapsed_ms :: int

text \<open>
  \<^verbatim>\<open>performAIAnalysis(content, pageType)\<close>, lines 266 to 299. An answer that
  \<^verbatim>\<open>JSON.parse\<close> rejects is replaced by a fixed analysis with no violations (lines
  280 to 288); every other error is thrown again as \<^verbatim>\<open>AI analysis failed: ...\<close>.
\<close>

definition performAIAnalysis ::
  "'r platform \<Rightarrow> ambient \<Rightarrow> router \<Rightarrow> content \<Rightarrow> string \<Rightarrow> (exn + ai_results) \<times> router" where
  "performAIAnalysis pf amb r cont pageType =
     (let prompt = buildAIPrompt cont pageType in
      case callWithFailover r ''COMPLIANCE'' prompt \<lparr>temperature = Some (1 / 10), maxTokens = Some 8192\<rparr> of
        (Inl e, r1) \<Rightarrow> (Inl (Error (''AI analysis failed: '' @ message e)), r1)
      | (Inr result, r1) \<Rightarrow>
          (let aiAnalysis = (case JSON_parse pf (a_text result) of
                               Some parsed \<Rightarrow> parsed
                             | None \<Rightarrow> Items [])
           in (Inr \<lparr>ai_violations = aiAnalysis,
                     ai_model = str_or_lit (a_model result) ''unknown'',
                     ai_confidence = 85 / 100,
                     ai_processing_time = elapsed_ms amb\<rparr>, r1)))"

text \<open>\<^verbatim>\<open>isAIConfigured()\<close>, lines 464 to 467.\<close>

definition isAIConfigured :: "router \<Rightarrow> bool" where
  "isAIConfigured r =
     ((case clients r ''claude'' of None \<Rightarrow> False | Some c \<Rightarrow> isConfigured c)
      \<or> (case clients r ''openai'' of None \<Rightarrow> False | Some c \<Rightarrow> isConfigured c))"

record check_options =
  o_url :: "string option"
  o_pageType :: "string option"
  o_includeRecommendations :: "bool option"
  o_useAI :: "bool option"

record ai_metadata =
  model_used :: string
  confidence :: number
  processing_time :: int

record content_analysis =
  word_count :: nat
  ca_page_type :: string
  extraction_method :: string

record compliance_result =
  cr_scan_id :: string
  cr_url :: string
  cr_page_type :: string
  cr_timestamp :: string
  cr_compliance_score :: jsnum
  cr_status :: status
  cr_violations :: "violation list"
  cr_required_elements :: "required_element list"
  cr_passed_rules :: "passed_rule list"
  cr_recommendations :: "string list"
  cr_content_analysis :: content_analysis
  cr_ai_analysis :: "ai_metadata option"

record checker =
  ck_router :: router
  ck_rules :: "ruleset option"

text \<open>
  The body of the \<^verbatim>\<open>try\<close> of \<^verbatim>\<open>checkCompliance\<close>, lines 37 to 86, with the rules
  loaded. The inner \<^verbatim>\<open>try\<close> (lines 44 to 48) drops an error of
  \<^verbatim>\<open>performAIAnalysis\<close> and leaves \<^verbatim>\<open>aiResults\<close> \<^verbatim>\<open>null\<close>; the outer
  \<^verbatim>\<open>catch\<close> throws any other error again as \<^verbatim>\<open>Compliance check failed: ...\<close>.
  \<open>None\<close>: the rule evaluation does not end.
\<close>

definition check_with_rules ::
  "'r platform \<Rightarrow> ambient \<Rightarrow> ruleset \<Rightarrow> router \<Rightarrow> content \<Rightarrow> check_options
     \<Rightarrow> ((exn + compliance_result) \<times> router) option" where
  "check_with_rules pf amb rules r cont options =
     (let url = (case o_url options of None \<Rightarrow> [] | Some u \<Rightarrow> u);
          pageType = (case o_pageType options of None \<Rightarrow> ''general'' | Some p \<Rightarrow> p);
          includeRecommendations =
            (case o_includeRecommendations options of None \<Rightarrow> True | Some b \<Rightarrow> b);
          useAI = (case o_useAI options of None \<Rightarrow> True | Some b \<Rightarrow> b)
      in case performBasicChecks pf rules cont of
           None \<Rightarrow> None
         | Some basicResults \<Rightarrow>
             (let ai = (if useAI \<and> isAIConfigured r then
                          (case performAIAnalysis pf amb r cont pageType of
                             (Inl aiError, r1) \<Rightarrow> (None, r1)
                           | (Inr a, r1) \<Rightarrow> (Some a, r1))
                        else (None, r));
                  aiResults = fst ai
              in case combineResults basicResults aiResults of
                   Inl e \<Rightarrow> Some (Inl (Error (''Compliance check failed: '' @ message e)), snd ai)
                 | Inr combinedResults \<Rightarrow>
                     (let finalScore = calculateComplianceScore (double_round pf) rules combinedResults;
                          recommendations =
                            (if includeRecommendations
                             then generateRecommendations combinedResults pageType else [])
                      in Some (Inr
                           \<lparr>cr_scan_id = new_scan_id amb,
                            cr_url = url,
                            cr_page_type = pageType,
                            cr_timestamp = now_iso amb,
                            cr_compliance_score = finalScore,
                            cr_status = determineStatus_num rules finalScore,
                            cr_violations = violations combinedResults,
                            cr_required_elements = required_elements combinedResults,
                            cr_passed_rules = passed_rules combinedResults,
                            cr_recommendations = recommendations,
                            cr_content_analysis =
                              \<lparr>word_count = (if truthy (c_text cont)
                                             then length (split_ws (the (c_text cont))) else 0),
                               ca_page_type = pageType,
                               extraction_method = str_or_lit (c_method cont) ''unknown''\<rparr>,
                            cr_ai_analysis =
                              (case aiResults of
                                 None \<Rightarrow> None
                               | Some a \<Rightarrow>
                                   Some \<lparr>model_used = ai_model a,
                                         confidence = (if ai_confidence a = 0 then 8 / 10
                                                       else ai_confidence a),
                                         processing_time = ai_processing_time a\<rparr>)\<rparr>,
                           snd ai))))"

text \<open>
  \<^verbatim>\<open>checkCompliance(content, options)\<close>, lines 25 to 87. When the rules are not
  loaded yet, \<^verbatim>\<open>loadRules\<close> (lines 15 to 23) reads them or throws
  \<^verbatim>\<open>Compliance rules not available\<close>.
\<close>

definition checkCompliance ::
  "'r platform \<Rightarrow> ambient \<Rightarrow> checker \<Rightarrow> content \<Rightarrow> check_options
     \<Rightarrow> ((exn + compliance_result) \<times> checker) option" where
  "checkCompliance pf amb ck cont options =
     (case (case ck_rules ck of None \<Rightarrow> rules_file amb | Some rules \<Rightarrow> Some rules) of
        None \<Rightarrow> Some (Inl (Error ''Compliance rules not available''), ck)
      | Some rules \<Rightarrow>
          map_option (\<lambda>(res, r1). (res, \<lparr>ck_router = r1, ck_rules = Some rules\<rparr>))
            (check_with_rules pf amb rules (ck_router ck) cont options))"

section \<open>Notions of the specification\<close>

text \<open>
  The definitions of this section are not translations of source functions: they say
  what the specification's words mean, so that the code can be compared with them.
\<close>




text \<open>
  The whitespace-delimited tokens of a string are its maximal runs of characters that are
  not whitespace. \<open>count_tokens in_token s\<close> counts the tokens that start in \<open>s\<close>;
  \<open>in_token\<close> says that the character before \<open>s\<close> belongs to a token.
\<close>

fun count_tokens :: "bool \<Rightarrow> string \<Rightarrow> nat" where
  "count_tokens in_token [] = 0"
| "count_tokens in_token (c # cs) =
     (if is_space c then count_tokens False cs
      else (if in_token then 0 else 1) + count_tokens True cs)"

text \<open>The number of tokens before position \<open>index\<close>: the word index of a match there.\<close>

definition tokens_before :: "string \<Rightarrow> nat \<Rightarrow> nat" where
  "tokens_before txt index = count_tokens False (take index txt)"

text \<open>
  A match starts a token when the text before it is empty or ends with whitespace.
\<close>

definition starts_a_token :: "string \<Rightarrow> nat \<Rightarrow> bool" where
  "starts_a_token txt index =
     (case take index txt of
        [] \<Rightarrow> True
      | c # cs \<Rightarrow> is_space (last (c # cs)))"

text \<open>The text before the match begins with whitespace.\<close>

definition leading_space :: "string \<Rightarrow> nat \<Rightarrow> bool" where
  "leading_space txt index =
     (case take index txt of
        [] \<Rightarrow> False
      | c # cs \<Rightarrow> is_space c)"

text \<open>
  What is known of the rounding \<open>fl\<close> of double arithmetic (to the nearest double, a tie
  going to the even one, and to an infinity beyond the largest double): it is monotone,
  so that it never gives \<^verbatim>\<open>NaN\<close>, and every integer up to \<open>2 ^ 53\<close> in magnitude is
  a double, so that it is rounded to itself.
\<close>

definition rounds_like_double :: "(number \<Rightarrow> jsnum) \<Rightarrow> bool" where
  "rounds_like_double fl =
     ((\<forall>x y. x \<le> y \<longrightarrow> num_le (fl x) (fl y))
      \<and> (\<forall>k :: int. \<bar>k\<bar> \<le> 2 ^ 53 \<longrightarrow> fl (of_int k) = Fin (of_int k)))"

text \<open>A weight that is finite, and a weight that is not negative.\<close>

fun finite_weight :: "jsnum \<Rightarrow> bool" where
  "finite_weight PosInfinity = False"
| "finite_weight NegInfinity = False"
| "finite_weight w = True"

fun not_negative :: "jsnum \<Rightarrow> bool" where
  "not_negative (Fin x) = (0 \<le> x)"
| "not_negative NegInfinity = False"
| "not_negative w = True"

text \<open>
  A severity is plain for the weights when it is one of their own keys, or when it is not
  the name of a member of \<^verbatim>\<open>Object.prototype\<close> either.
\<close>

definition plain_severity :: "(string \<rightharpoonup> jsnum) \<Rightarrow> string \<Rightarrow> bool" where
  "plain_severity weights sev =
     (weights sev \<noteq> None \<or> sev \<notin> set object_prototype_names)"

text \<open>A client name stands for a configured provider: the client exists and says so.\<close>

definition configured :: "router \<Rightarrow> string option \<Rightarrow> bool" where
  "configured r name = (case getClient r name of None \<Rightarrow> False | Some c \<Rightarrow> isConfigured c)"

text \<open>A rule's detector is malformed: it has a pattern and \<^verbatim>\<open>new RegExp\<close> rejects it.\<close>

definition malformed :: "'r platform \<Rightarrow> rule \<Rightarrow> bool" where
  "malformed pf rule =
     (truthy (r_pattern rule)
      \<and> RegExp_new pf (the (r_pattern rule)) (str_or_lit (r_flags rule) ''gi'') = None)"

text \<open>The rule with a malformed pattern taken away, every other rule as it is.\<close>

definition neutralised :: "'r platform \<Rightarrow> rule \<Rightarrow> rule" where
  "neutralised pf rule = (if malformed pf rule then rule\<lparr>r_pattern := None\<rparr> else rule)"

definition neutralised_rules :: "'r platform \<Rightarrow> ruleset \<Rightarrow> ruleset" where
  "neutralised_rules pf rules =
     rules\<lparr>critical_violations := map (neutralised pf) (critical_violations rules),
           required_terminology := map (neutralised pf) (required_terminology rules),
           required_disclaimers := map (neutralised pf) (required_disclaimers rules)\<rparr>"

text \<open>The rules whose detector is a pattern: all but the web requirements.\<close>

definition pattern_rules :: "ruleset \<Rightarrow> rule list" where
  "pattern_rules rules =
     critical_violations rules @ required_terminology rules @ required_disclaimers rules"

text \<open>
  A result is built from the rule-based findings \<open>b\<close> alone: its three lists are those
  of \<open>b\<close>, and its score and status are computed from them.
\<close>

definition built_from_rules ::
  "(number \<Rightarrow> jsnum) \<Rightarrow> ruleset \<Rightarrow> basic_results \<Rightarrow> compliance_result \<Rightarrow> bool" where
  "built_from_rules fl rules b res =
     (cr_violations res = violations b
      \<and> cr_required_elements res = required_elements b
      \<and> cr_passed_rules res = passed_rules b
      \<and> cr_compliance_score res = calculateComplianceScore fl rules b
      \<and> cr_status res = determineStatus_num rules (calculateComplianceScore fl rules b))"

text \<open>The prompt and the options of the one AI call that \<open>checkCompliance\<close> makes.\<close>

definition compliance_prompt :: "content \<Rightarrow> check_options \<Rightarrow> string" where
  "compliance_prompt cont options =
     buildAIPrompt cont (case o_pageType options of None \<Rightarrow> ''general'' | Some p \<Rightarrow> p)"

definition compliance_call_options :: gen_options where
  "compliance_call_options = \<lparr>temperature = Some (1 / 10), maxTokens = Some 8192\<rparr>"

text \<open>The AI analysis is asked for and possible: \<^verbatim>\<open>useAI && this.isAIConfigured()\<close>.\<close>

definition ai_enabled :: "checker \<Rightarrow> check_options \<Rightarrow> bool" where
  "ai_enabled ck options =
     ((case o_useAI options of None \<Rightarrow> True | Some u \<Rightarrow> u) \<and> isAIConfigured (ck_router ck))"

section \<open>Concrete inputs\<close>

text \<open>
  The inputs on which the theorems below are run. The first is a small platform. Its
  regular expressions are the patterns made of letters, digits and spaces, which match
  themselves in JavaScript too; it rejects every other pattern, as JavaScript rejects
  the pattern \<^verbatim>\<open>(\<close> used below (an unterminated group). Of the flags it reads
  \<^verbatim>\<open>g\<close> and \<^verbatim>\<open>i\<close>.
\<close>

record literal_regex =
  lr_pattern :: string
  lr_global :: bool
  lr_ignoreCase :: bool

definition literal_RegExp_new :: "string \<Rightarrow> string \<Rightarrow> literal_regex option" where
  "literal_RegExp_new pattern flags =
     (if pattern \<noteq> [] \<and> list_all (\<lambda>c. is_alpha c \<or> is_digit c \<or> c = CHR '' '') pattern
         \<and> distinct flags \<and> list_all (\<lambda>c. c \<in> set ''dgimsuy'') flags
      then Some \<lparr>lr_pattern = pattern, lr_global = (CHR ''g'' \<in> set flags),
                 lr_ignoreCase = (CHR ''i'' \<in> set flags)\<rparr>
      else None)"

text \<open>The first position at or after \<open>i\<close> (the position of \<open>s\<close>) where \<open>p\<close> holds.\<close>

fun find_from :: "(string \<Rightarrow> bool) \<Rightarrow> nat \<Rightarrow> string \<Rightarrow> nat option" where
  "find_from p i [] = (if p [] then Some i else None)"
| "find_from p i (c # cs) = (if p (c # cs) then Some i else find_from p (Suc i) cs)"

definition literal_exec ::
  "literal_regex \<Rightarrow> nat \<Rightarrow> string \<Rightarrow> ((string \<times> nat) \<times> nat) option" where
  "literal_exec re lastIndex txt =
     (let start = (if lr_global re then lastIndex else 0);
          fold_case = (if lr_ignoreCase re then toLowerCase else (\<lambda>s. s));
          pattern = fold_case (lr_pattern re)
      in if start > length txt then None
         else case find_from (\<lambda>s. starts_with s pattern) start (fold_case (drop start txt)) of
                None \<Rightarrow> None
              | Some i \<Rightarrow>
                  Some ((take (length pattern) (drop i txt), i),
                        (if lr_global re then i + length pattern else lastIndex)))"

text \<open>
  Its \<^verbatim>\<open>JSON.parse\<close> knows the texts of a table and rejects every other text. Of the
  texts used below, \<^verbatim>\<open>I am sorry, I cannot analyse this page.\<close> is not JSON.
\<close>

definition table_JSON_parse :: "(string \<times> ai_violations) list \<Rightarrow> string \<Rightarrow> ai_violations option" where
  "table_JSON_parse table s = map_of table s"

text \<open>
  Its arithmetic is exact. The numbers added and subtracted below are integers and
  12.5, whose sums and differences are doubles, so that double arithmetic is exact on
  them too.
\<close>

definition literal_platform :: "(string \<times> ai_violations) list \<Rightarrow> literal_regex platform" where
  "literal_platform table =
     \<lparr>RegExp_new = literal_RegExp_new, RegExp_exec = literal_exec,
      JSON_parse = table_JSON_parse table, double_round = Fin\<rparr>"

text \<open>A rule set: one rule of each kind, and a critical rule whose pattern is malformed.\<close>

definition rule_job :: rule where
  "rule_job =
     \<lparr>r_id = ''cv_001'', r_name = ''employment_guarantee'', r_category = ''critical_violations'',
      r_severity = ''critical'', r_description = ''Employment guarantee'',
      r_pattern = Some ''guaranteed job'', r_flags = None, r_required = False,
      r_correction = None, r_examples_compliant = None, r_asqa_reference = ''Standard 4.1''\<rparr>"

definition rule_malformed :: rule where
  "rule_malformed =
     \<lparr>r_id = ''cv_002'', r_name = ''salary_promise'', r_category = ''critical_violations'',
      r_severity = ''critical'', r_description = ''Salary promise'',
      r_pattern = Some ''('', r_flags = None, r_required = False,
      r_correction = None, r_examples_compliant = None, r_asqa_reference = ''Standard 4.1''\<rparr>"

definition rule_course :: rule where
  "rule_course =
     \<lparr>r_id = ''rt_001'', r_name = ''unit_terminology'', r_category = ''required_terminology'',
      r_severity = ''moderate'', r_description = ''Unit called a course'',
      r_pattern = Some ''course code'', r_flags = Some ''gi'', r_required = False,
      r_correction = Some ''Say unit of competency'', r_examples_compliant = None,
      r_asqa_reference = ''Standard 4.1''\<rparr>"

definition rule_rpl :: rule where
  "rule_rpl =
     \<lparr>r_id = ''rd_001'', r_name = ''rpl_available'', r_category = ''required_disclaimers'',
      r_severity = ''warning'', r_description = ''RPL availability'',
      r_pattern = Some ''recognition of prior learning'', r_flags = None, r_required = True,
      r_correction = None, r_examples_compliant = None, r_asqa_reference = ''Standard 1.12''\<rparr>"

definition rule_fees :: rule where
  "rule_fees =
     \<lparr>r_id = ''ws_003'', r_name = ''fee_disclosure'', r_category = ''web_specific_requirements'',
      r_severity = ''moderate'', r_description = ''Fee disclosure'',
      r_pattern = None, r_flags = None, r_required = True,
      r_correction = None, r_examples_compliant = None, r_asqa_reference = ''Standard 5.3''\<rparr>"

definition example_thresholds :: thresholds where
  "example_thresholds = \<lparr>excellent = 90, good = 75, acceptable = 60, needs_improvement = 40\<rparr>"

definition example_rules :: "number \<Rightarrow> ruleset" where
  "example_rules W =
     \<lparr>critical_violations = [rule_job, rule_malformed],
      required_terminology = [rule_course],
      required_disclaimers = [rule_rpl],
      web_specific_requirements = [rule_fees],
      severity_weights = [''critical'' \<mapsto> Fin W, ''moderate'' \<mapsto> Fin 10, ''warning'' \<mapsto> Fin 5],
      overall_score = example_thresholds\<rparr>"

definition example_content :: content where
  "example_content =
     \<lparr>c_text = Some ''A guaranteed job. Recognition of prior learning: yes.'',
      c_links = Some [\<lparr>l_text = ''Contact us'', l_href = ''/contact''\<rparr>],
      c_method = Some ''static''\<rparr>"

definition example_violation :: "string \<Rightarrow> string \<Rightarrow> string \<Rightarrow> violation" where
  "example_violation sev cat found =
     \<lparr>v_id = ''cv_001'', v_category = cat, v_severity = sev,
      v_description = ''Employment guarantee'', v_text_found = found,
      v_location = ''beginning'', v_recommendation = Some ''Remove the claim'',
      v_asqa_reference = None, v_source = None\<rparr>"

text \<open>A text of \<open>n\<close> one-letter words and then a phrase, which starts at index \<open>2 * n\<close>.\<close>

definition words_then_phrase :: "nat \<Rightarrow> string" where
  "words_then_phrase n = concat (replicate n ''w '') @ ''guaranteed job''"

text \<open>
  A router whose role \<^verbatim>\<open>COMPLIANCE\<close> has the client \<^verbatim>\<open>claude\<close> as primary and
  \<^verbatim>\<open>openai\<close> as fallback, both through the model table. Each client is given by
  whether it is configured and by what its \<^verbatim>\<open>generateText\<close> does.
\<close>

definition example_client :: "bool \<Rightarrow> exn + gen_result \<Rightarrow> client" where
  "example_client conf outcome =
     \<lparr>isConfigured = conf, generateText = (\<lambda>prompt options. outcome),
      calculateCost = (\<lambda>u. of_nat (usage_tokens u) * 3 / 1000000)\<rparr>"

definition example_role :: role_config where
  "example_role =
     \<lparr>primary = Some ''claude_sonnet'', primary_model = None,
      fallback = Some ''gpt4_turbo'', fallback_model = None\<rparr>"

definition example_config :: router_config where
  "example_config =
     \<lparr>roles = [''COMPLIANCE'' \<mapsto> example_role],
      models = [''claude_sonnet'' \<mapsto> \<lparr>provider = Some ''claude''\<rparr>,
                ''gpt4_turbo'' \<mapsto> \<lparr>provider = Some ''openai''\<rparr>]\<rparr>"

definition example_router :: "client \<Rightarrow> client \<Rightarrow> router" where
  "example_router claude openai =
     \<lparr>config = example_config,
      clients = [''claude'' \<mapsto> claude, ''openai'' \<mapsto> openai],
      totalCost = 0, usageStats = Map.empty, generateText_log = []\<rparr>"

definition example_answer :: "string \<Rightarrow> gen_result" where
  "example_answer s =
     \<lparr>g_text = Some s, g_content = None,
      g_usage = Some \<lparr>total_tokens = Some 120, prompt_tokens = None, completion_tokens = None,
                       input_tokens = Some 100, output_tokens = Some 20\<rparr>,
      g_model = Some ''example-model''\<rparr>"

text \<open>An answer of a client that fills \<^verbatim>\<open>content\<close> and not \<^verbatim>\<open>text\<close>.\<close>

definition example_content_answer :: "string \<Rightarrow> gen_result" where
  "example_content_answer s =
     \<lparr>g_text = None, g_content = Some s, g_usage = None, g_model = Some ''example-model''\<rparr>"

definition example_options :: gen_options where
  "example_options = \<lparr>temperature = Some (1 / 10), maxTokens = Some 8192\<rparr>"

text \<open>What the rules find in \<open>example_content\<close>.\<close>

definition example_basic :: basic_results where
  "example_basic =
     \<lparr>violations =
        [\<lparr>v_id = ''cv_001'', v_category = ''critical_violations'', v_severity = ''critical'',
          v_description = ''Employment guarantee'', v_text_found = ''guaranteed job'',
          v_location = ''beginning'',
          v_recommendation =
            Some ''Remove or revise the violating content to meet ASQA requirements'',
          v_asqa_reference = Some ''Standard 4.1'', v_source = None\<rparr>,
         \<lparr>v_id = ''ws_003'', v_category = ''web_specific_requirements'',
          v_severity = ''moderate'',
          v_description = ''Missing required web element: Fee disclosure'',
          v_text_found = [], v_location = ''entire_page'',
          v_recommendation = Some ''Add: Fee disclosure'',
          v_asqa_reference = Some ''Standard 5.3'', v_source = None\<rparr>],
      required_elements =
        [\<lparr>e_id = ''rd_001'', e_type = ''disclaimer'', e_description = ''RPL availability'',
          e_found = True, e_location = None, e_asqa_reference = ''Standard 1.12''\<rparr>],
      passed_rules =
        [\<lparr>p_id = ''cv_002'', p_category = ''critical_violations'',
          p_type = ''critical_violation'', p_description = ''Salary promise'',
          p_status = ''passed'', p_message = ''No forbidden salary promise found'',
          p_location = None, p_asqa_reference = ''Standard 4.1''\<rparr>,
         \<lparr>p_id = ''rt_001'', p_category = ''required_terminology'',
          p_type = ''required_terminology'', p_description = ''Unit called a course'',
          p_status = ''passed'',
          p_message = ''Correct terminology used - no unit terminology violations found'',
          p_location = None, p_asqa_reference = ''Standard 4.1''\<rparr>],
      b_method = ''rule_based''\<rparr>"

text \<open>A rule set with the given critical rules and disclaimers and no other rule.\<close>

definition small_rules :: "rule list \<Rightarrow> rule list \<Rightarrow> ruleset" where
  "small_rules critical disclaimers =
     \<lparr>critical_violations = critical, required_terminology = [],
      required_disclaimers = disclaimers, web_specific_requirements = [],
      severity_weights = [''critical'' \<mapsto> Fin 50, ''moderate'' \<mapsto> Fin 10, ''warning'' \<mapsto> Fin 5],
      overall_score = example_thresholds\<rparr>"

text \<open>A checker that has not loaded its rules yet, and what one call finds around it.\<close>

definition example_ambient :: "ruleset option \<Rightarrow> ambient" where
  "example_ambient file =
     \<lparr>rules_file = file, new_scan_id = ''scan_1730000000000_k3j9x0a1b'',
      now_iso = ''2025-01-01T00:00:00.000Z'', elapsed_ms = 1200\<rparr>"

definition example_checker :: "client \<Rightarrow> client \<Rightarrow> checker" where
  "example_checker claude openai =
     \<lparr>ck_router = example_router claude openai, ck_rules = None\<rparr>"

definition example_check_options :: check_options where
  "example_check_options =
     \<lparr>o_url = Some ''https://example-rto.edu.au'', o_pageType = None,
      o_includeRecommendations = None, o_useAI = None\<rparr>"

section \<open>Lemmas on the score\<close>

lemma fl_not_NaN:
  assumes "rounds_like_double fl"
  shows "fl x \<noteq> NaN"
proof
  assume "fl x = NaN"
  moreover have "num_le (fl x) (fl x)"
    using assms unfolding rounds_like_double_def by blast
  ultimately show False by simp
qed

lemma fl_of_int:
  assumes "rounds_like_double fl" and "\<bar>k\<bar> \<le> 2 ^ 53"
  shows "fl (of_int k) = Fin (of_int k)"
  using assms unfolding rounds_like_double_def by blast

lemma fl_mono:
  assumes "rounds_like_double fl" and "x \<le> y"
  shows "num_le (fl x) (fl y)"
  using assms unfolding rounds_like_double_def by blast

lemma num_le_lower:
  "num_le (Fin l) a \<longleftrightarrow> a = PosInfinity \<or> (\<exists>x. a = Fin x \<and> l \<le> x)"
  by (cases a) simp_all

lemma num_le_upper:
  "num_le a (Fin u) \<longleftrightarrow> a = NegInfinity \<or> (\<exists>x. a = Fin x \<and> x \<le> u)"
  by (cases a) simp_all

lemma fl_lower:
  assumes "rounds_like_double fl" and "0 \<le> x"
  shows "num_le (Fin 0) (fl x)"
proof -
  have "fl (of_int 0) = Fin (of_int 0)" by (rule fl_of_int [OF assms(1)]) simp
  then have "fl 0 = Fin 0" by simp
  with fl_mono [OF assms(1), of 0 x] assms(2) show ?thesis by simp
qed

lemma fl_upper:
  assumes "rounds_like_double fl" and "x \<le> of_int k" and "\<bar>k\<bar> \<le> 2 ^ 53"
  shows "num_le (fl x) (Fin (of_int k))"
  using fl_mono [OF assms(1,2)] fl_of_int [OF assms(1,3)] by simp

lemma weight_of_plain:
  assumes "plain_severity weights sev"
  shows "weight_of weights sev \<noteq> NaN
       \<and> ((\<forall>s w. weights s = Some w \<longrightarrow> finite_weight w)
            \<longrightarrow> (\<exists>y. weight_of weights sev = Fin y))
       \<and> ((\<forall>s w. weights s = Some w \<longrightarrow> not_negative w)
            \<longrightarrow> num_le (Fin 0) (weight_of weights sev))"
proof (cases "weights sev")
  case None
  with assms show ?thesis by (simp add: weight_of_def plain_severity_def)
next
  case (Some w)
  have f: "finite_weight w" if "\<forall>s w. weights s = Some w \<longrightarrow> finite_weight w"
    using that Some by blast
  have n: "not_negative w" if "\<forall>s w. weights s = Some w \<longrightarrow> not_negative w"
    using that Some by blast
  from Some f n show ?thesis by (cases w) (auto simp: weight_of_def)
qed

lemma minus_finite_weight:
  assumes "rounds_like_double fl" and "score \<noteq> NaN"
  shows "num_minus fl score (Fin y) \<noteq> NaN"
  using assms fl_not_NaN [OF assms(1)] by (cases score) simp_all

lemma minus_not_negative_weight:
  assumes "rounds_like_double fl" and "num_le score (Fin 100)" and "num_le (Fin 0) w"
  shows "num_le (num_minus fl score w) (Fin 100)"
proof -
  from assms(3) consider "w = PosInfinity" | y where "w = Fin y" "0 \<le> y"
    unfolding num_le_lower by blast
  then show ?thesis
  proof cases
    case 1
    with assms(2) show ?thesis by (cases score) simp_all
  next
    case 2
    from assms(2) consider "score = NegInfinity" | x where "score = Fin x" "x \<le> 100"
      unfolding num_le_upper by blast
    then show ?thesis
    proof cases
      case 1
      with 2 show ?thesis by simp
    next
      case b: 2
      have "x - y \<le> of_int 100" using b(2) 2(2) by simp
      from fl_upper [OF assms(1) this] have "num_le (fl (x - y)) (Fin 100)" by simp
      with b(1) 2(1) show ?thesis by simp
    qed
  qed
qed

lemma deduct_finite_weights:
  assumes fl: "rounds_like_double fl"
    and plain: "\<forall>v \<in> set vs. plain_severity weights (v_severity v)"
    and fin: "\<forall>s w. weights s = Some w \<longrightarrow> finite_weight w"
    and "score \<noteq> NaN"
  shows "deduct fl weights score vs \<noteq> NaN"
  using plain assms(4)
proof (induction vs arbitrary: score)
  case Nil
  then show ?case by simp
next
  case (Cons v vs)
  from Cons.prems(1) have "plain_severity weights (v_severity v)" by simp
  from weight_of_plain [OF this] fin obtain y where
    y: "weight_of weights (v_severity v) = Fin y" by blast
  have "num_minus fl score (Fin y) \<noteq> NaN"
    by (rule minus_finite_weight [OF fl Cons.prems(2)])
  moreover from Cons.prems(1) have "\<forall>v \<in> set vs. plain_severity weights (v_severity v)"
    by simp
  ultimately have "deduct fl weights (num_minus fl score (Fin y)) vs \<noteq> NaN"
    by (rule Cons.IH [rotated])
  then show ?case by (simp add: y)
qed

lemma deduct_not_negative_weights:
  assumes fl: "rounds_like_double fl"
    and plain: "\<forall>v \<in> set vs. plain_severity weights (v_severity v)"
    and nn: "\<forall>s w. weights s = Some w \<longrightarrow> not_negative w"
    and "num_le score (Fin 100)"
  shows "num_le (deduct fl weights score vs) (Fin 100)"
  using plain assms(4)
proof (induction vs arbitrary: score)
  case Nil
  then show ?case by simp
next
  case (Cons v vs)
  from Cons.prems(1) have "plain_severity weights (v_severity v)" by simp
  from weight_of_plain [OF this] nn
  have w: "num_le (Fin 0) (weight_of weights (v_severity v))" by blast
  have "num_le (num_minus fl score (weight_of weights (v_severity v))) (Fin 100)"
    by (rule minus_not_negative_weight [OF fl Cons.prems(2) w])
  moreover from Cons.prems(1) have "\<forall>v \<in> set vs. plain_severity weights (v_severity v)"
    by simp
  ultimately
  have "num_le (deduct fl weights (num_minus fl score (weight_of weights (v_severity v))) vs)
          (Fin 100)"
    by (rule Cons.IH [rotated])
  then show ?case by simp
qed

lemma Math_round_bounds:
  assumes "0 \<le> x"
  shows "0 \<le> Math_round x \<and> (x \<le> 100 \<longrightarrow> Math_round x \<le> 100)"
proof -
  have "0 \<le> \<lfloor>x + 1 / 2\<rfloor>" using assms by simp
  moreover have "\<lfloor>x + 1 / 2\<rfloor> \<le> 100" if "x \<le> 100"
  proof -
    have "x + 1 / 2 < 101" using that by simp
    then have "\<lfloor>x + 1 / 2\<rfloor> < 101" by (simp add: floor_less_iff)
    then show ?thesis by simp
  qed
  ultimately show ?thesis by (simp add: Math_round_def)
qed

lemma Math_round_of_int: "Math_round (of_int k) = k"
proof -
  have "\<lfloor>(of_int k :: rat) + 1 / 2\<rfloor> = k"
    by (rule floor_unique) simp_all
  then show ?thesis by (simp add: Math_round_def)
qed

lemma rest_of_score_lower:
  assumes fl: "rounds_like_double fl" and "d \<noteq> NaN"
  shows "Math_round_num
           (if bonus then Math_min (Fin 100) (num_plus fl (Math_max (Fin 0) d) (Fin 5))
            else Math_max (Fin 0) d) = PosInfinity
       \<or> (\<exists>s. Math_round_num
                 (if bonus then Math_min (Fin 100) (num_plus fl (Math_max (Fin 0) d) (Fin 5))
                  else Math_max (Fin 0) d) = Fin (of_int s) \<and> 0 \<le> s)"
proof -
  let ?m = "Math_max (Fin 0) d"
  have "num_le (Fin 0) ?m" using assms(2) by (cases d) (simp_all add: Math_max_def)
  then consider "?m = PosInfinity" | x where "?m = Fin x" "0 \<le> x"
    unfolding num_le_lower by blast
  then show ?thesis
  proof cases
    case 1
    then show ?thesis
      using Math_round_bounds [of 100] by (auto simp: Math_min_def)
  next
    case 2
    have "num_le (Fin 0) (fl (x + 5))" by (rule fl_lower [OF fl]) (use 2(2) in simp)
    then consider "fl (x + 5) = PosInfinity" | z where "fl (x + 5) = Fin z" "0 \<le> z"
      unfolding num_le_lower by blast
    then show ?thesis
    proof cases
      case 1
      with 2 show ?thesis
        using Math_round_bounds [of 100] Math_round_bounds [of x]
        by (auto simp: Math_min_def)
    next
      case z: 2
      with 2 show ?thesis
        using Math_round_bounds [of 100] Math_round_bounds [of x] Math_round_bounds [of z]
        by (auto simp: Math_min_def)
    qed
  qed
qed

lemma rest_of_score_bounded:
  assumes fl: "rounds_like_double fl" and "num_le d (Fin 100)"
  shows "\<exists>s. Math_round_num
                (if bonus then Math_min (Fin 100) (num_plus fl (Math_max (Fin 0) d) (Fin 5))
                 else Math_max (Fin 0) d) = Fin (of_int s) \<and> 0 \<le> s \<and> s \<le> 100"
proof -
  let ?m = "Math_max (Fin 0) d"
  from assms(2) have "\<exists>x. ?m = Fin x \<and> 0 \<le> x \<and> x \<le> 100"
    by (cases d) (auto simp: Math_max_def)
  then obtain x where m: "?m = Fin x" and x: "0 \<le> x" "x \<le> 100" by blast
  have "num_le (Fin 0) (fl (x + 5))" by (rule fl_lower [OF fl]) (use x in simp)
  moreover have "num_le (fl (x + 5)) (Fin (of_int 105))"
    by (rule fl_upper [OF fl]) (use x in simp_all)
  ultimately obtain z where z: "fl (x + 5) = Fin z" "0 \<le> z"
    unfolding num_le_lower by (cases "fl (x + 5)") auto
  show ?thesis
    using m x z Math_round_bounds [of 100] Math_round_bounds [of x] Math_round_bounds [of z]
    by (auto simp: Math_min_def)
qed

section \<open>The score is bounded (C5)\<close>

text \<open>
  The claim C5 as stated fails. With a negative severity weight the score passes 100:
  nothing caps it when there is no required element. And a violation whose severity is
  the name of a member of \<^verbatim>\<open>Object.prototype\<close>, which an AI answer can contain, makes
  the score \<^verbatim>\<open>NaN\<close>, which is not at least 0.
\<close>

theorem score_bounds_counterexample:
  "calculateComplianceScore (double_round (literal_platform [])) (example_rules (- 5))
      \<lparr>violations = [example_violation ''critical'' ''critical_violations'' ''guaranteed job''],
       required_elements = [], passed_rules = []\<rparr> = Fin 105
   \<and> \<not> num_le (Fin 105) (Fin 100)
   \<and> calculateComplianceScore (double_round (literal_platform [])) (example_rules 50)
      \<lparr>violations = [example_violation ''constructor'' ''critical_violations'' ''guaranteed job''],
       required_elements = [], passed_rules = []\<rparr> = NaN
   \<and> \<not> num_le (Fin 0) NaN"
proof -
  have a: "calculateComplianceScore (double_round (literal_platform [])) (example_rules (- 5))
      \<lparr>violations = [example_violation ''critical'' ''critical_violations'' ''guaranteed job''],
       required_elements = [], passed_rules = []\<rparr> = Fin (of_int (Math_round (of_int 105)))"
    by (simp add: calculateComplianceScore_def example_rules_def example_violation_def
        weight_of_def literal_platform_def Math_max_def)
  have b: "calculateComplianceScore (double_round (literal_platform [])) (example_rules 50)
      \<lparr>violations = [example_violation ''constructor'' ''critical_violations'' ''guaranteed job''],
       required_elements = [], passed_rules = []\<rparr> = NaN"
    by (simp add: calculateComplianceScore_def example_rules_def example_violation_def
        weight_of_def object_prototype_names_def literal_platform_def Math_max_def)
  from a have "calculateComplianceScore (double_round (literal_platform [])) (example_rules (- 5))
      \<lparr>violations = [example_violation ''critical'' ''critical_violations'' ''guaranteed job''],
       required_elements = [], passed_rules = []\<rparr> = Fin (of_int 105)"
    by (simp only: Math_round_of_int)
  with b show ?thesis by simp
qed

text \<open>
  C5, amended. In double arithmetic (its rounding monotone, integers up to \<open>2 ^ 53\<close>
  rounded to themselves), for every list of required elements and every violation list
  in which each severity is an own key of the severity weights or not the name of a
  member of \<^verbatim>\<open>Object.prototype\<close>: when no severity weight is negative, the score is
  an integer with \<open>0 \<le> score \<le> 100\<close>; when every severity weight is finite, negative
  or not, the score is at least 0: an integer, or \<^verbatim>\<open>Infinity\<close>.
\<close>

theorem score_bounded:
  "rounds_like_double fl
   \<and> (\<forall>v \<in> set (violations res). plain_severity (severity_weights rules) (v_severity v)) \<longrightarrow>
   ((\<forall>sev w. severity_weights rules sev = Some w \<longrightarrow> not_negative w) \<longrightarrow>
      (\<exists>s. calculateComplianceScore fl rules res = Fin (of_int s) \<and> 0 \<le> s \<and> s \<le> 100))
   \<and> ((\<forall>sev w. severity_weights rules sev = Some w \<longrightarrow> finite_weight w) \<longrightarrow>
        calculateComplianceScore fl rules res = PosInfinity
        \<or> (\<exists>s. calculateComplianceScore fl rules res = Fin (of_int s) \<and> 0 \<le> s))"
proof
  assume h: "rounds_like_double fl
   \<and> (\<forall>v \<in> set (violations res). plain_severity (severity_weights rules) (v_severity v))"
  then have fl: "rounds_like_double fl"
    and plain: "\<forall>v \<in> set (violations res). plain_severity (severity_weights rules) (v_severity v)"
    by blast+
  let ?d = "deduct fl (severity_weights rules) (Fin 100) (violations res)"
  let ?bonus = "required_elements res \<noteq> [] \<and> list_all e_found (required_elements res)"
  have s: "calculateComplianceScore fl rules res =
             Math_round_num
               (if ?bonus then Math_min (Fin 100) (num_plus fl (Math_max (Fin 0) ?d) (Fin 5))
                else Math_max (Fin 0) ?d)"
    by (simp add: calculateComplianceScore_def Let_def)
  have 1: "\<exists>s. calculateComplianceScore fl rules res = Fin (of_int s) \<and> 0 \<le> s \<and> s \<le> 100"
    if nn: "\<forall>sev w. severity_weights rules sev = Some w \<longrightarrow> not_negative w"
  proof -
    have "num_le ?d (Fin 100)"
      by (rule deduct_not_negative_weights [OF fl plain nn]) simp
    from rest_of_score_bounded [OF fl this, of ?bonus] show ?thesis
      unfolding s .
  qed
  have 2: "calculateComplianceScore fl rules res = PosInfinity
        \<or> (\<exists>s. calculateComplianceScore fl rules res = Fin (of_int s) \<and> 0 \<le> s)"
    if fin: "\<forall>sev w. severity_weights rules sev = Some w \<longrightarrow> finite_weight w"
  proof -
    have "?d \<noteq> NaN"
      by (rule deduct_finite_weights [OF fl plain fin]) simp
    from rest_of_score_lower [OF fl this, of ?bonus] show ?thesis
      unfolding s .
  qed
  from 1 2 show "((\<forall>sev w. severity_weights rules sev = Some w \<longrightarrow> not_negative w) \<longrightarrow>
      (\<exists>s. calculateComplianceScore fl rules res = Fin (of_int s) \<and> 0 \<le> s \<and> s \<le> 100))
   \<and> ((\<forall>sev w. severity_weights rules sev = Some w \<longrightarrow> finite_weight w) \<longrightarrow>
        calculateComplianceScore fl rules res = PosInfinity
        \<or> (\<exists>s. calculateComplianceScore fl rules res = Fin (of_int s) \<and> 0 \<le> s))"
    by blast
qed

theorem score_bounded_witness:
  "rounds_like_double (double_round (literal_platform []))
   \<and> plain_severity (severity_weights (example_rules 50)) ''critical''
   \<and> plain_severity (severity_weights (example_rules 50)) ''unknown''
   \<and> not_negative (Fin 50) \<and> not_negative (Fin 10) \<and> not_negative (Fin 5)
   \<and> (\<exists>s. calculateComplianceScore (double_round (literal_platform [])) (example_rules 50)
          \<lparr>violations = [example_violation ''critical'' ''c'' ''guaranteed job'',
                          example_violation ''unknown'' ''c'' ''x''],
            required_elements = [], passed_rules = []\<rparr> = Fin (of_int s)
        \<and> 0 \<le> s \<and> s \<le> 100)
   \<and> calculateComplianceScore (double_round (literal_platform [])) (example_rules 50)
          \<lparr>violations = [example_violation ''critical'' ''c'' ''guaranteed job'',
                          example_violation ''unknown'' ''c'' ''x''],
            required_elements = [], passed_rules = []\<rparr> = Fin 40"
proof -
  let ?fl = "double_round (literal_platform [] :: literal_regex platform)"
  let ?res = "\<lparr>violations = [example_violation ''critical'' ''c'' ''guaranteed job'',
                          example_violation ''unknown'' ''c'' ''x''],
            required_elements = [], passed_rules = []\<rparr>"
  have r: "rounds_like_double ?fl"
    by (simp add: rounds_like_double_def literal_platform_def)
  have p1: "plain_severity (severity_weights (example_rules 50)) ''critical''"
    by (simp add: plain_severity_def example_rules_def)
  have p2: "plain_severity (severity_weights (example_rules 50)) ''unknown''"
    by (simp add: plain_severity_def example_rules_def object_prototype_names_def)
  have p: "\<forall>v \<in> set (violations ?res).
             plain_severity (severity_weights (example_rules 50)) (v_severity v)"
    using p1 p2 by (simp add: example_violation_def)
  have n: "not_negative (Fin 50) \<and> not_negative (Fin 10) \<and> not_negative (Fin 5)" by simp
  have h: "\<forall>sev w. severity_weights (example_rules 50) sev = Some w \<longrightarrow> not_negative w"
    by (auto simp: example_rules_def split: if_splits)
  from score_bounded [of ?fl ?res "example_rules 50"] r p h
  have b: "\<exists>s. calculateComplianceScore ?fl (example_rules 50) ?res = Fin (of_int s)
            \<and> 0 \<le> s \<and> s \<le> 100"
    by blast
  have "calculateComplianceScore ?fl (example_rules 50) ?res = Fin (of_int (Math_round (of_int 40)))"
    by (simp add: calculateComplianceScore_def example_rules_def example_violation_def
        weight_of_def object_prototype_names_def literal_platform_def Math_max_def)
  then have v: "calculateComplianceScore ?fl (example_rules 50) ?res = Fin 40"
    by (simp only: Math_round_of_int) simp
  from r p1 p2 n b v show ?thesis by blast
qed

section \<open>Status classification (C7)\<close>

text \<open>
  C7. \<open>determineStatus\<close> compares the score with the four thresholds from the highest
  down, each bound included: at least \<open>excellent\<close> gives \<open>PASS\<close>, else at least
  \<open>good\<close> gives \<open>PASS_WITH_NOTES\<close>, else at least \<open>acceptable\<close> gives
  \<open>NEEDS_REVIEW\<close>, else at least \<open>needs_improvement\<close> gives \<open>ACTION_REQUIRED\<close>,
  otherwise \<open>FAIL\<close>. A score equal to a threshold gets that threshold's tier, the
  higher of the two it separates, when the thresholds descend.
\<close>

theorem status_by_thresholds:
  "determineStatus rules score =
     (if score \<ge> excellent (overall_score rules) then PASS
      else if score \<ge> good (overall_score rules) then PASS_WITH_NOTES
      else if score \<ge> acceptable (overall_score rules) then NEEDS_REVIEW
      else if score \<ge> needs_improvement (overall_score rules) then ACTION_REQUIRED
      else FAIL)
   \<and> determineStatus rules (excellent (overall_score rules)) = PASS
   \<and> (good (overall_score rules) < excellent (overall_score rules) \<longrightarrow>
        determineStatus rules (good (overall_score rules)) = PASS_WITH_NOTES)
   \<and> (acceptable (overall_score rules) < good (overall_score rules)
        \<and> good (overall_score rules) \<le> excellent (overall_score rules) \<longrightarrow>
        determineStatus rules (acceptable (overall_score rules)) = NEEDS_REVIEW)
   \<and> (needs_improvement (overall_score rules) < acceptable (overall_score rules)
        \<and> acceptable (overall_score rules) \<le> good (overall_score rules)
        \<and> good (overall_score rules) \<le> excellent (overall_score rules) \<longrightarrow>
        determineStatus rules (needs_improvement (overall_score rules)) = ACTION_REQUIRED)"
  by (simp add: determineStatus_def Let_def)

theorem status_by_thresholds_witness:
  "determineStatus (example_rules 50) 90 = PASS
   \<and> determineStatus (example_rules 50) 75 = PASS_WITH_NOTES
   \<and> determineStatus (example_rules 50) 60 = NEEDS_REVIEW
   \<and> determineStatus (example_rules 50) 40 = ACTION_REQUIRED
   \<and> determineStatus (example_rules 50) 39 = FAIL
   \<and> determineStatus (example_rules 50) 89 = PASS_WITH_NOTES"
  using status_by_thresholds [of "example_rules 50" 39]
        status_by_thresholds [of "example_rules 50" 89]
  by (simp add: example_rules_def example_thresholds_def)

section \<open>One critical violation (C4)\<close>

text \<open>
  The claim C4 as stated, score \<open>= max 0 (100 - W)\<close>, fails at the weight 12.5, where
  the score is rounded to 88 and not 87.5, and at the weight 0, which
  \<^verbatim>\<open>weights[...] || 10\<close> replaces by 10, so that the score is 90 and not 100.
\<close>

theorem single_critical_counterexample:
  "calculateComplianceScore (double_round (literal_platform [])) (example_rules (25 / 2))
       \<lparr>violations = [example_violation ''critical'' ''critical_violations'' ''guaranteed job''],
        required_elements = [], passed_rules = []\<rparr> = Fin 88
   \<and> Fin 88 \<noteq> Fin (max 0 (100 - 25 / 2))
   \<and> calculateComplianceScore (double_round (literal_platform [])) (example_rules 0)
       \<lparr>violations = [example_violation ''critical'' ''critical_violations'' ''guaranteed job''],
        required_elements = [], passed_rules = []\<rparr> = Fin 90
   \<and> Fin 90 \<noteq> Fin (max 0 (100 - 0))"
proof -
  have a: "calculateComplianceScore (double_round (literal_platform [])) (example_rules (25 / 2))
       \<lparr>violations = [example_violation ''critical'' ''critical_violations'' ''guaranteed job''],
        required_elements = [], passed_rules = []\<rparr> = Fin 88"
    by (simp add: calculateComplianceScore_def example_rules_def example_violation_def
        weight_of_def literal_platform_def Math_max_def Math_round_def)
  have "calculateComplianceScore (double_round (literal_platform [])) (example_rules 0)
       \<lparr>violations = [example_violation ''critical'' ''critical_violations'' ''guaranteed job''],
        required_elements = [], passed_rules = []\<rparr> = Fin (of_int (Math_round (of_int 90)))"
    by (simp add: calculateComplianceScore_def example_rules_def example_violation_def
        weight_of_def literal_platform_def Math_max_def)
  then have b: "calculateComplianceScore (double_round (literal_platform [])) (example_rules 0)
       \<lparr>violations = [example_violation ''critical'' ''critical_violations'' ''guaranteed job''],
        required_elements = [], passed_rules = []\<rparr> = Fin 90"
    by (simp only: Math_round_of_int) simp
  show ?thesis unfolding a b by simp
qed

text \<open>
  C4, amended. With exactly one violation, of severity critical, a weight \<open>W\<close> for
  critical and no required element: when \<open>W\<close> is finite and not 0, the score is
  \<open>max 0 d\<close> rounded to the nearest integer (a tie going up), where \<open>d\<close> is the
  difference \<open>100 - W\<close> as double arithmetic gives it (and it is \<^verbatim>\<open>Infinity\<close> if \<open>d\<close>
  is, and 0 if \<open>d\<close> is \<^verbatim>\<open>-Infinity\<close>); when \<open>W\<close> is an integer other than 0 with
  \<open>100 - W\<close> up to \<open>2 ^ 53\<close> in magnitude, the score is \<open>max 0 (100 - W)\<close> itself, so
  \<open>W = 50\<close> gives 50; when \<open>W\<close> is \<^verbatim>\<open>Infinity\<close> the score is 0, and when \<open>W\<close> is
  \<^verbatim>\<open>-Infinity\<close> the score is \<^verbatim>\<open>Infinity\<close>.
\<close>

theorem single_critical_score:
  assumes "v_severity v = ''critical''"
  shows "(\<forall>W. severity_weights rules ''critical'' = Some (Fin W) \<and> W \<noteq> 0 \<longrightarrow>
            calculateComplianceScore fl rules
              \<lparr>violations = [v], required_elements = [], passed_rules = ps\<rparr>
            = (case fl (100 - W) of
                 NaN \<Rightarrow> NaN
               | NegInfinity \<Rightarrow> Fin 0
               | Fin d \<Rightarrow> Fin (of_int \<lfloor>max 0 d + 1 / 2\<rfloor>)
               | PosInfinity \<Rightarrow> PosInfinity))
       \<and> (\<forall>k. severity_weights rules ''critical'' = Some (Fin (of_int k)) \<and> k \<noteq> 0
              \<and> \<bar>100 - k\<bar> \<le> 2 ^ 53 \<and> rounds_like_double fl \<longrightarrow>
            calculateComplianceScore fl rules
              \<lparr>violations = [v], required_elements = [], passed_rules = ps\<rparr>
            = Fin (of_int (max 0 (100 - k))))
       \<and> (severity_weights rules ''critical'' = Some PosInfinity \<longrightarrow>
            calculateComplianceScore fl rules
              \<lparr>violations = [v], required_elements = [], passed_rules = ps\<rparr>
            = Fin 0)
       \<and> (severity_weights rules ''critical'' = Some NegInfinity \<longrightarrow>
            calculateComplianceScore fl rules
              \<lparr>violations = [v], required_elements = [], passed_rules = ps\<rparr>
            = PosInfinity)"
proof -
  let ?score = "calculateComplianceScore fl rules
                  \<lparr>violations = [v], required_elements = [], passed_rules = ps\<rparr>"
  have s: "?score = Math_round_num
             (Math_max (Fin 0)
                (num_minus fl (Fin 100) (weight_of (severity_weights rules) ''critical'')))"
    using assms by (simp add: calculateComplianceScore_def)
  have 1: "?score = (case fl (100 - W) of
                 NaN \<Rightarrow> NaN
               | NegInfinity \<Rightarrow> Fin 0
               | Fin d \<Rightarrow> Fin (of_int \<lfloor>max 0 d + 1 / 2\<rfloor>)
               | PosInfinity \<Rightarrow> PosInfinity)"
    if "severity_weights rules ''critical'' = Some (Fin W)" "W \<noteq> 0" for W
  proof -
    have w: "weight_of (severity_weights rules) ''critical'' = Fin W"
      using that by (simp add: weight_of_def)
    have z: "Math_round 0 = 0" using Math_round_of_int [of 0] by simp
    show ?thesis
    proof (cases "fl (100 - W)")
      case (Fin d)
      then show ?thesis
        unfolding s w by (simp add: Math_max_def Math_round_def max_def)
    qed (simp_all add: s w Math_max_def z)
  qed
  have 2: "?score = Fin (of_int (max 0 (100 - k)))"
    if "severity_weights rules ''critical'' = Some (Fin (of_int k))" "k \<noteq> 0"
       "\<bar>100 - k\<bar> \<le> 2 ^ 53" "rounds_like_double fl" for k :: int
  proof -
    have w: "weight_of (severity_weights rules) ''critical'' = Fin (of_int k)"
      using that(1,2) by (simp add: weight_of_def)
    have "fl (of_int (100 - k)) = Fin (of_int (100 - k))"
      by (rule fl_of_int [OF that(4,3)])
    then have f: "fl (100 - of_int k) = Fin (of_int (100 - k))" by simp
    have "Math_max (Fin 0) (Fin (of_int (100 - k))) = Fin (of_int (max 0 (100 - k)))"
      by (simp add: Math_max_def max_def)
    then show ?thesis
      unfolding s w by (simp only: num_minus.simps f Math_round_num.simps Math_round_of_int)
  qed
  have 3: "?score = Fin 0" if "severity_weights rules ''critical'' = Some PosInfinity"
  proof -
    have w: "weight_of (severity_weights rules) ''critical'' = PosInfinity"
      using that by (simp add: weight_of_def)
    have "Math_round (of_int 0) = 0" by (rule Math_round_of_int)
    then show ?thesis unfolding s w by (simp add: Math_max_def)
  qed
  have 4: "?score = PosInfinity" if "severity_weights rules ''critical'' = Some NegInfinity"
  proof -
    have w: "weight_of (severity_weights rules) ''critical'' = NegInfinity"
      using that by (simp add: weight_of_def)
    show ?thesis unfolding s w by (simp add: Math_max_def)
  qed
  from 1 2 3 4 show ?thesis by blast
qed

theorem single_critical_score_witness:
  "severity_weights (example_rules 50) ''critical'' = Some (Fin 50)
   \<and> rounds_like_double (double_round (literal_platform []))
   \<and> calculateComplianceScore (double_round (literal_platform [])) (example_rules 50)
       \<lparr>violations = [example_violation ''critical'' ''critical_violations'' ''guaranteed job''],
        required_elements = [], passed_rules = []\<rparr> = Fin 50
   \<and> severity_weights (example_rules (25 / 2)) ''critical'' = Some (Fin (25 / 2))
   \<and> calculateComplianceScore (double_round (literal_platform [])) (example_rules (25 / 2))
       \<lparr>violations = [example_violation ''critical'' ''critical_violations'' ''guaranteed job''],
        required_elements = [], passed_rules = []\<rparr> = Fin 88"
proof -
  let ?fl = "double_round (literal_platform [] :: literal_regex platform)"
  let ?v = "example_violation ''critical'' ''critical_violations'' ''guaranteed job''"
  have a: "severity_weights (example_rules 50) ''critical'' = Some (Fin (of_int 50))"
    by (simp add: example_rules_def)
  have a': "severity_weights (example_rules (25 / 2)) ''critical'' = Some (Fin (25 / 2))"
    by (simp add: example_rules_def)
  have c: "v_severity ?v = ''critical''"
    by (simp add: example_violation_def)
  have r: "rounds_like_double ?fl"
    by (simp add: rounds_like_double_def literal_platform_def)
  have k: "(50::int) \<noteq> 0 \<and> \<bar>100 - (50::int)\<bar> \<le> 2 ^ 53" by simp
  from single_critical_score [OF c, of "example_rules 50" ?fl "[]", THEN conjunct2,
        THEN conjunct1, rule_format, of 50] a k r
  have "calculateComplianceScore ?fl (example_rules 50)
       \<lparr>violations = [?v], required_elements = [], passed_rules = []\<rparr>
        = Fin (of_int (max 0 (100 - 50)))"
    by blast
  then have s50: "calculateComplianceScore ?fl (example_rules 50)
       \<lparr>violations = [?v], required_elements = [], passed_rules = []\<rparr> = Fin 50"
    by simp
  have f: "?fl (100 - 25 / 2) = Fin (175 / 2)"
    by (simp add: literal_platform_def)
  from single_critical_score [OF c, of "example_rules (25 / 2)" ?fl "[]", THEN conjunct1,
        rule_format, of "25 / 2"] a'
  have "calculateComplianceScore ?fl (example_rules (25 / 2))
       \<lparr>violations = [?v], required_elements = [], passed_rules = []\<rparr>
        = (case ?fl (100 - 25 / 2) of
                 NaN \<Rightarrow> NaN
               | NegInfinity \<Rightarrow> Fin 0
               | Fin d \<Rightarrow> Fin (of_int \<lfloor>max 0 d + 1 / 2\<rfloor>)
               | PosInfinity \<Rightarrow> PosInfinity)"
    by simp
  then have s88: "calculateComplianceScore ?fl (example_rules (25 / 2))
       \<lparr>violations = [?v], required_elements = [], passed_rules = []\<rparr> = Fin 88"
    unfolding f by simp
  from a a' r s50 s88 show ?thesis by simp
qed

section \<open>Merging rule violations with the AI's (C8)\<close>






section \<open>Location of a match (C6)\<close>

lemma split_ws_from_length:
  "length (split_ws_from True cur s)
     = count_tokens False s + (if s = [] \<or> is_space (last s) then 1 else 0)
   \<and> length (split_ws_from False cur s)
     = count_tokens True s + 1 + (if s \<noteq> [] \<and> is_space (last s) then 1 else 0)"
proof (induction s arbitrary: cur)
  case Nil
  show ?case by simp
next
  case (Cons c cs)
  show ?case
  proof (cases "is_space c")
    case True
    with Cons.IH [of cur] Cons.IH [of "[]"] show ?thesis by (cases cs) auto
  next
    case False
    with Cons.IH [of "cur @ [c]"] show ?thesis by (cases cs) auto
  qed
qed

lemma count_tokens_True:
  "count_tokens False s = count_tokens True s + (if s \<noteq> [] \<and> \<not> is_space (hd s) then 1 else 0)"
  by (cases s) auto

lemma split_ws_length:
  "length (split_ws b) =
     count_tokens False b
     + (if b = [] \<or> is_space (hd b) then 1 else 0)
     + (if b \<noteq> [] \<and> is_space (last b) then 1 else 0)"
proof (cases b)
  case Nil
  then show ?thesis by (simp add: split_ws_def)
next
  case (Cons c cs)
  then show ?thesis
    using split_ws_from_length [of "[]" "c # cs"] count_tokens_True [of "c # cs"]
    by (auto simp: split_ws_def)
qed

lemma case_hd:
  "(case b of [] \<Rightarrow> False | c # cs \<Rightarrow> is_space c) \<longleftrightarrow> b \<noteq> [] \<and> is_space (hd b)"
  by (cases b) simp_all

lemma case_last:
  "(case b of [] \<Rightarrow> True | c # cs \<Rightarrow> is_space (last (c # cs))) \<longleftrightarrow> b = [] \<or> is_space (last b)"
  by (cases b) simp_all

lemma leading_space_hd:
  "leading_space txt index \<longleftrightarrow> take index txt \<noteq> [] \<and> is_space (hd (take index txt))"
  unfolding leading_space_def by (rule case_hd)

lemma starts_a_token_last:
  "starts_a_token txt index \<longleftrightarrow> take index txt = [] \<or> is_space (last (take index txt))"
  unfolding starts_a_token_def by (rule case_last)

lemma wordCount_tokens:
  "wordCount txt index =
     tokens_before txt index
     + (if take index txt = [] \<or> leading_space txt index then 1 else 0)
     + (if take index txt \<noteq> [] \<and> is_space (last (take index txt)) then 1 else 0)"
proof -
  have "(take index txt = [] \<or> leading_space txt index)
        \<longleftrightarrow> (take index txt = [] \<or> is_space (hd (take index txt)))"
    unfolding leading_space_hd by blast
  then show ?thesis
    unfolding wordCount_def tokens_before_def split_ws_length [of "take index txt"]
    by presburger
qed

lemma wordCount_starts_a_token:
  assumes "starts_a_token txt index"
  shows "wordCount txt index
           = tokens_before txt index + 1 + (if leading_space txt index then 1 else 0)"
proof (cases "take index txt = []")
  case True
  then have "\<not> leading_space txt index"
    unfolding leading_space_hd by blast
  with True show ?thesis
    unfolding wordCount_tokens [of "txt" "index"] by presburger
next
  case False
  with assms have "is_space (last (take index txt))"
    unfolding starts_a_token_last by blast
  with False show ?thesis
    unfolding wordCount_tokens [of "txt" "index"] by presburger
qed

text \<open>
  The claim C6 as stated fails: with 49 tokens before the match (word index 49) the
  location is not \<^verbatim>\<open>beginning\<close>, and with 199 tokens before it the location is not
  \<^verbatim>\<open>middle\<close>. The source counts the pieces of \<^verbatim>\<open>before.split(/\s+/)\<close>, and the
  whitespace before the match leaves an empty last piece.
\<close>

theorem location_word_index_counterexample:
  "tokens_before (words_then_phrase 49) 98 = 49
   \<and> estimateLocation (words_then_phrase 49) 98 \<noteq> ''beginning''
   \<and> tokens_before (words_then_phrase 199) 398 = 199
   \<and> estimateLocation (words_then_phrase 199) 398 \<noteq> ''middle''"
  by code_simp

text \<open>
  C6, amended. The location is decided by the number \<open>n\<close> of pieces into which the text
  before the match splits at runs of whitespace: \<open>n < 50\<close> gives \<^verbatim>\<open>beginning\<close>,
  \<open>50 \<le> n < 200\<close> gives \<^verbatim>\<open>middle\<close>, \<open>n \<ge> 200\<close> gives \<^verbatim>\<open>end\<close>. \<open>n\<close> is the number
  \<open>k\<close> of tokens before the match, plus one when that text is empty or begins with
  whitespace, plus one when it ends with whitespace. So for a match that starts a token
  (the text before it is empty or ends with whitespace): when the text does not begin
  with whitespace, \<open>n = k + 1\<close>, and \<open>k < 49\<close> gives \<^verbatim>\<open>beginning\<close>,
  \<open>49 \<le> k < 199\<close> gives \<^verbatim>\<open>middle\<close>, \<open>k \<ge> 199\<close> gives \<^verbatim>\<open>end\<close>; when the text
  before the match begins with whitespace, \<open>n = k + 2\<close>, and \<open>k < 48\<close> gives
  \<^verbatim>\<open>beginning\<close>, \<open>48 \<le> k < 198\<close> gives \<^verbatim>\<open>middle\<close>, \<open>k \<ge> 198\<close> gives \<^verbatim>\<open>end\<close>.
\<close>

theorem location_by_word_count:
  "estimateLocation txt index =
     (if wordCount txt index < 50 then ''beginning''
      else if wordCount txt index < 200 then ''middle'' else ''end'')
   \<and> wordCount txt index =
       tokens_before txt index
       + (if take index txt = [] \<or> leading_space txt index then 1 else 0)
       + (if take index txt \<noteq> [] \<and> is_space (last (take index txt)) then 1 else 0)
   \<and> (starts_a_token txt index \<and> \<not> leading_space txt index \<longrightarrow>
        wordCount txt index = tokens_before txt index + 1
        \<and> estimateLocation txt index =
          (if tokens_before txt index < 49 then ''beginning''
           else if tokens_before txt index < 199 then ''middle'' else ''end''))
   \<and> (starts_a_token txt index \<and> leading_space txt index \<longrightarrow>
        wordCount txt index = tokens_before txt index + 2
        \<and> estimateLocation txt index =
          (if tokens_before txt index < 48 then ''beginning''
           else if tokens_before txt index < 198 then ''middle'' else ''end''))"
proof -
  have 1: "estimateLocation txt index =
     (if wordCount txt index < 50 then ''beginning''
      else if wordCount txt index < 200 then ''middle'' else ''end'')"
    by (simp add: estimateLocation_def)
  have 3: "wordCount txt index = tokens_before txt index + 1
        \<and> estimateLocation txt index =
          (if tokens_before txt index < 49 then ''beginning''
           else if tokens_before txt index < 199 then ''middle'' else ''end'')"
    if "starts_a_token txt index" "\<not> leading_space txt index"
    using wordCount_starts_a_token [OF that(1)] that(2) by (simp add: estimateLocation_def)
  have 4: "wordCount txt index = tokens_before txt index + 2
        \<and> estimateLocation txt index =
          (if tokens_before txt index < 48 then ''beginning''
           else if tokens_before txt index < 198 then ''middle'' else ''end'')"
    if "starts_a_token txt index" "leading_space txt index"
    using wordCount_starts_a_token [OF that(1)] that(2) by (simp add: estimateLocation_def)
  from 1 3 4 wordCount_tokens [of "txt" "index"] show ?thesis by blast
qed

theorem location_by_word_count_witness:
  "starts_a_token (words_then_phrase 48) 96 \<and> \<not> leading_space (words_then_phrase 48) 96
   \<and> tokens_before (words_then_phrase 48) 96 = 48
   \<and> estimateLocation (words_then_phrase 48) 96 = ''beginning''
   \<and> starts_a_token (words_then_phrase 49) 98 \<and> \<not> leading_space (words_then_phrase 49) 98
   \<and> tokens_before (words_then_phrase 49) 98 = 49
   \<and> estimateLocation (words_then_phrase 49) 98 = ''middle''
   \<and> starts_a_token (words_then_phrase 199) 398 \<and> \<not> leading_space (words_then_phrase 199) 398
   \<and> tokens_before (words_then_phrase 199) 398 = 199
   \<and> estimateLocation (words_then_phrase 199) 398 = ''end''
   \<and> starts_a_token (CHR '' '' # words_then_phrase 47) 95
   \<and> leading_space (CHR '' '' # words_then_phrase 47) 95
   \<and> tokens_before (CHR '' '' # words_then_phrase 47) 95 = 47
   \<and> estimateLocation (CHR '' '' # words_then_phrase 47) 95 = ''beginning''
   \<and> starts_a_token (CHR '' '' # words_then_phrase 48) 97
   \<and> leading_space (CHR '' '' # words_then_phrase 48) 97
   \<and> tokens_before (CHR '' '' # words_then_phrase 48) 97 = 48
   \<and> estimateLocation (CHR '' '' # words_then_phrase 48) 97 = ''middle''"
proof -
  have s48: "starts_a_token (words_then_phrase 48) 96 \<and> \<not> leading_space (words_then_phrase 48) 96"
    by code_simp
  have t48: "tokens_before (words_then_phrase 48) 96 = 48" by code_simp
  have s49: "starts_a_token (words_then_phrase 49) 98 \<and> \<not> leading_space (words_then_phrase 49) 98"
    by code_simp
  have t49: "tokens_before (words_then_phrase 49) 98 = 49" by code_simp
  have s199: "starts_a_token (words_then_phrase 199) 398
              \<and> \<not> leading_space (words_then_phrase 199) 398"
    by code_simp
  have t199: "tokens_before (words_then_phrase 199) 398 = 199" by code_simp
  have s47: "starts_a_token (CHR '' '' # words_then_phrase 47) 95
             \<and> leading_space (CHR '' '' # words_then_phrase 47) 95"
    by code_simp
  have t47: "tokens_before (CHR '' '' # words_then_phrase 47) 95 = 47" by code_simp
  have i48: "starts_a_token (CHR '' '' # words_then_phrase 48) 97
             \<and> leading_space (CHR '' '' # words_then_phrase 48) 97"
    by code_simp
  have u48: "tokens_before (CHR '' '' # words_then_phrase 48) 97 = 48" by code_simp
  have l48: "estimateLocation (words_then_phrase 48) 96 = ''beginning''"
    using location_by_word_count [of "words_then_phrase 48" 96,
            THEN conjunct2, THEN conjunct2, THEN conjunct1, THEN mp, OF s48, THEN conjunct2]
    by (simp only: t48) simp
  have l49: "estimateLocation (words_then_phrase 49) 98 = ''middle''"
    using location_by_word_count [of "words_then_phrase 49" 98,
            THEN conjunct2, THEN conjunct2, THEN conjunct1, THEN mp, OF s49, THEN conjunct2]
    by (simp only: t49) simp
  have l199: "estimateLocation (words_then_phrase 199) 398 = ''end''"
    using location_by_word_count [of "words_then_phrase 199" 398,
            THEN conjunct2, THEN conjunct2, THEN conjunct1, THEN mp, OF s199, THEN conjunct2]
    by (simp only: t199) simp
  have l47: "estimateLocation (CHR '' '' # words_then_phrase 47) 95 = ''beginning''"
    using location_by_word_count [of "CHR '' '' # words_then_phrase 47" 95,
            THEN conjunct2, THEN conjunct2, THEN conjunct2, THEN mp, OF s47, THEN conjunct2]
    by (simp only: t47) simp
  have m48: "estimateLocation (CHR '' '' # words_then_phrase 48) 97 = ''middle''"
    using location_by_word_count [of "CHR '' '' # words_then_phrase 48" 97,
            THEN conjunct2, THEN conjunct2, THEN conjunct2, THEN mp, OF i48, THEN conjunct2]
    by (simp only: u48) simp
  from s48 t48 l48 s49 t49 l49 s199 t199 l199 s47 t47 l47 i48 u48 m48 show ?thesis by blast
qed

section \<open>The router's failover\<close>

lemma trackUsage_frame:
  "clients (trackUsage r n u) = clients r
   \<and> config (trackUsage r n u) = config r
   \<and> generateText_log (trackUsage r n u) = generateText_log r"
  by (simp add: trackUsage_def Let_def split: option.splits)

lemma attempt_unconfigured:
  assumes "\<not> configured r n"
  shows "attempt r n prompt opts = (None, r)"
  using assms by (simp add: attempt_def configured_def split: option.splits)

lemma attempt_throws:
  assumes "getClient r n = Some c" and "isConfigured c"
    and "generateText c prompt opts = Inl e"
  shows "attempt r n prompt opts
           = (Some (Inl e), r\<lparr>generateText_log := generateText_log r @ [prop_key n]\<rparr>)"
  using assms by (simp add: attempt_def)

lemma attempt_returns:
  assumes "getClient r n = Some c" and "isConfigured c"
    and "generateText c prompt opts = Inr res"
  shows "attempt r n prompt opts
           = (Some (Inr (normalized res)),
              trackUsage (r\<lparr>generateText_log := generateText_log r @ [prop_key n]\<rparr>) n (g_usage res))"
  using assms by (simp add: attempt_def)

lemma attempt_frame:
  "clients (snd (attempt r n prompt opts)) = clients r
   \<and> config (snd (attempt r n prompt opts)) = config r
   \<and> (generateText_log (snd (attempt r n prompt opts)) = generateText_log r
        \<and> fst (attempt r n prompt opts) = None \<and> \<not> configured r n
      \<or> generateText_log (snd (attempt r n prompt opts)) = generateText_log r @ [prop_key n]
        \<and> fst (attempt r n prompt opts) \<noteq> None \<and> configured r n)"
  by (auto simp: attempt_def configured_def trackUsage_frame Let_def split: option.splits sum.splits)

lemma configured_frame:
  assumes "clients r1 = clients r"
  shows "configured r1 n = configured r n" and "getClient r1 n = getClient r n"
  using assms by (simp_all add: configured_def getClient_def)


lemma callWithFailover_unfold:
  assumes "roles (config r) role = Some rc"
  shows "callWithFailover r role prompt opts =
     (let a = attempt r (primaryClientName (config r) rc) prompt opts in
      case fst a of
        Some (Inr x) \<Rightarrow> (Inr x, snd a)
      | _ \<Rightarrow>
          if truthy (fallbackClientName (config r) rc) then
            (let b = attempt (snd a) (fallbackClientName (config r) rc) prompt opts in
             case fst b of
               Some (Inr x) \<Rightarrow> (Inr x, snd b)
             | Some (Inl e) \<Rightarrow> (Inl e, snd b)
             | None \<Rightarrow> (Inl (NoProviderAvailable role), snd b))
          else (Inl (NoProviderAvailable role), snd a))"
  using assms
  by (simp add: callWithFailover_def Let_def split: prod.splits option.splits sum.splits)

lemma failover_log:
  assumes "roles (config r) role = Some rc"
  shows "\<exists>calls. generateText_log (snd (callWithFailover r role prompt opts))
                   = generateText_log r @ calls
           \<and> (\<forall>n \<in> set calls. configured r (Some n))"
proof -
  let ?p = "primaryClientName (config r) rc"
  let ?f = "fallbackClientName (config r) rc"
  let ?a = "attempt r ?p prompt opts"
  let ?b = "attempt (snd ?a) ?f prompt opts"
  have key: "configured r (Some (prop_key n)) = configured r n" for n
    by (simp add: configured_def getClient_def prop_key_def split: option.splits)
  have a: "generateText_log (snd ?a) = generateText_log r
           \<or> generateText_log (snd ?a) = generateText_log r @ [prop_key ?p] \<and> configured r ?p"
    using attempt_frame [of r ?p prompt opts] by blast
  have ca: "clients (snd ?a) = clients r"
    using attempt_frame [of r ?p prompt opts] by blast
  have b: "generateText_log (snd ?b) = generateText_log (snd ?a)
           \<or> generateText_log (snd ?b) = generateText_log (snd ?a) @ [prop_key ?f] \<and> configured r ?f"
    using attempt_frame [of "snd ?a" ?f prompt opts] configured_frame(1) [OF ca] by blast
  have la: "\<exists>calls. generateText_log (snd ?a) = generateText_log r @ calls
              \<and> (\<forall>n \<in> set calls. configured r (Some n))"
    using a key by auto
  have lb: "\<exists>calls. generateText_log (snd ?b) = generateText_log r @ calls
              \<and> (\<forall>n \<in> set calls. configured r (Some n))"
  proof -
    from la obtain c1 where c1: "generateText_log (snd ?a) = generateText_log r @ c1"
      and k1: "\<forall>n \<in> set c1. configured r (Some n)" by blast
    from b show ?thesis
    proof
      assume "generateText_log (snd ?b) = generateText_log (snd ?a)"
      with c1 k1 show ?thesis by auto
    next
      assume h: "generateText_log (snd ?b) = generateText_log (snd ?a) @ [prop_key ?f] \<and> configured r ?f"
      then have "generateText_log (snd ?b) = generateText_log r @ (c1 @ [prop_key ?f])"
        using c1 by simp
      moreover have "\<forall>n \<in> set (c1 @ [prop_key ?f]). configured r (Some n)"
        using k1 h key by auto
      ultimately show ?thesis by blast
    qed
  qed
  have "snd (callWithFailover r role prompt opts) = snd ?a
        \<or> snd (callWithFailover r role prompt opts) = snd ?b"
    by (simp add: callWithFailover_unfold [OF assms] Let_def split: option.splits sum.splits)
  with la lb show ?thesis by auto
qed

lemma attempt_fst:
  "fst (attempt r n prompt opts) =
     (case getClient r n of
        None \<Rightarrow> None
      | Some fc \<Rightarrow>
          if isConfigured fc then
            (case generateText fc prompt opts of
               Inl e' \<Rightarrow> Some (Inl e')
             | Inr res \<Rightarrow> Some (Inr (normalized res)))
          else None)"
  by (simp add: attempt_def Let_def split: option.splits sum.splits)

lemma example_names:
  "roles (config (example_router c1 c2)) ''COMPLIANCE'' = Some example_role"
  "primaryClientName (config (example_router c1 c2)) example_role = Some ''claude''"
  "fallbackClientName (config (example_router c1 c2)) example_role = Some ''openai''"
  "getClient (example_router c1 c2) (Some ''claude'') = Some c1"
  "getClient (example_router c1 c2) (Some ''openai'') = Some c2"
  by (simp_all add: example_router_def example_config_def example_role_def
      primaryClientName_def fallbackClientName_def str_or_def truthy_def prop_key_def
      getClient_def)

lemma failover_known_role:
  assumes "roles (config r) role = Some rc"
  shows
   "(\<exists>calls. generateText_log (snd (callWithFailover r role prompt opts))
               = generateText_log r @ calls
        \<and> (\<forall>n \<in> set calls. configured r (Some n))
        \<and> (\<not> configured r (primaryClientName (config r) rc) \<longrightarrow>
              prop_key (primaryClientName (config r) rc) \<notin> set calls))
    \<and> (\<forall>c res. \<not> configured r (primaryClientName (config r) rc)
          \<and> truthy (fallbackClientName (config r) rc)
          \<and> getClient r (fallbackClientName (config r) rc) = Some c \<and> isConfigured c
          \<and> generateText c prompt opts = Inr res \<longrightarrow>
          fst (callWithFailover r role prompt opts) = Inr (normalized res)
          \<and> generateText_log (snd (callWithFailover r role prompt opts))
              = generateText_log r @ [prop_key (fallbackClientName (config r) rc)])
    \<and> (\<not> configured r (primaryClientName (config r) rc)
        \<and> \<not> (truthy (fallbackClientName (config r) rc)
              \<and> configured r (fallbackClientName (config r) rc)) \<longrightarrow>
        callWithFailover r role prompt opts = (Inl (NoProviderAvailable role), r))"
proof -
  let ?p = "primaryClientName (config r) rc"
  let ?f = "fallbackClientName (config r) rc"
  have key: "configured r (Some (prop_key n)) = configured r n" for n
    by (simp add: configured_def getClient_def prop_key_def split: option.splits)
  from failover_log [OF assms, of prompt opts] obtain calls
    where l: "generateText_log (snd (callWithFailover r role prompt opts)) = generateText_log r @ calls"
      and c: "\<forall>n \<in> set calls. configured r (Some n)" by blast
  have "prop_key ?p \<notin> set calls" if "\<not> configured r ?p"
  proof
    assume "prop_key ?p \<in> set calls"
    with c have "configured r (Some (prop_key ?p))" by blast
    with that show False by (simp add: key)
  qed
  with l c have 1: "\<exists>calls. generateText_log (snd (callWithFailover r role prompt opts))
               = generateText_log r @ calls
        \<and> (\<forall>n \<in> set calls. configured r (Some n))
        \<and> (\<not> configured r ?p \<longrightarrow> prop_key ?p \<notin> set calls)" by blast
  have 2: "fst (callWithFailover r role prompt opts) = Inr (normalized res)
          \<and> generateText_log (snd (callWithFailover r role prompt opts))
              = generateText_log r @ [prop_key ?f]"
    if "\<not> configured r ?p" "truthy ?f" "getClient r ?f = Some c" "isConfigured c"
       "generateText c prompt opts = Inr res" for c res
  proof -
    have a: "attempt r ?p prompt opts = (None, r)"
      by (rule attempt_unconfigured [OF that(1)])
    have b: "attempt r ?f prompt opts
           = (Some (Inr (normalized res)),
              trackUsage (r\<lparr>generateText_log := generateText_log r @ [prop_key ?f]\<rparr>) ?f (g_usage res))"
      by (rule attempt_returns [OF that(3) that(4) that(5)])
    show ?thesis
      by (simp add: callWithFailover_unfold [OF assms] a b that(2) trackUsage_frame)
  qed
  have 3: "callWithFailover r role prompt opts = (Inl (NoProviderAvailable role), r)"
    if "\<not> configured r ?p" "\<not> (truthy ?f \<and> configured r ?f)"
  proof -
    have a: "attempt r ?p prompt opts = (None, r)"
      by (rule attempt_unconfigured [OF that(1)])
    show ?thesis
    proof (cases "truthy ?f")
      case True
      with that(2) have "\<not> configured r ?f" by simp
      then have "attempt r ?f prompt opts = (None, r)" by (rule attempt_unconfigured)
      with True show ?thesis by (simp add: callWithFailover_unfold [OF assms] a)
    next
      case False
      then show ?thesis by (simp add: callWithFailover_unfold [OF assms] a)
    qed
  qed
  from 1 2 3 show ?thesis by blast
qed

lemma normalized_fields:
  "normalized res =
     \<lparr>a_text = (case g_text res of
                  Some (c # cs) \<Rightarrow> c # cs
                | _ \<Rightarrow> (case g_content res of Some t \<Rightarrow> t | None \<Rightarrow> [])),
      a_content = g_content res, a_usage = g_usage res, a_model = g_model res\<rparr>"
  by (simp add: normalized_def str_or_def str_or_lit_def truthy_def
      split: option.splits list.splits)

subsection \<open>Only configured providers are called (C1)\<close>

text \<open>
  The claim C1 as stated fails for a role that the configuration does not define: such
  a role has no primary and no fallback, so neither is configured, and the call fails
  with the error "Unknown role: TRANSLATION", not with
  "No configured AI models available for role: TRANSLATION".
\<close>

theorem unknown_role_counterexample:
  "roles (config (example_router
            (example_client False (Inl (Error ''Anthropic API key not configured'')))
            (example_client False (Inl (Error ''OpenAI API key not configured'')))))
     ''TRANSLATION'' = None
   \<and> callWithFailover
        (example_router (example_client False (Inl (Error ''Anthropic API key not configured'')))
                        (example_client False (Inl (Error ''OpenAI API key not configured''))))
        ''TRANSLATION'' ''Analyze'' example_options
     = (Inl (Error ''Unknown role: TRANSLATION''),
        example_router (example_client False (Inl (Error ''Anthropic API key not configured'')))
                       (example_client False (Inl (Error ''OpenAI API key not configured''))))
   \<and> Error ''Unknown role: TRANSLATION''
       \<noteq> Error ''No configured AI models available for role: TRANSLATION''"
  by (simp add: callWithFailover_def example_router_def example_config_def)

text \<open>
  C1, amended. For every role, every \<^verbatim>\<open>generateText\<close> call that \<open>callWithFailover\<close>
  makes is to a client that exists and whose \<^verbatim>\<open>isConfigured()\<close> is true, so the
  primary is called only when it is configured. For a role that the configuration
  defines: when the primary is not configured and the fallback is, and the fallback's
  call returns \<open>res\<close>, the result is \<open>res\<close> with \<^verbatim>\<open>text\<close> set to \<open>res\<close>'s text if that is
  a non-empty string, else to its content, else to the empty string, and the only call
  made is the fallback's: the primary's \<^verbatim>\<open>generateText\<close> is never invoked. When
  neither is configured, the call fails with the error
  "No configured AI models available for role: " followed by the role, and the router
  is unchanged. For a role that the configuration does not define, the call fails with
  the error "Unknown role: " followed by the role, no call is made and the router is
  unchanged.
\<close>

theorem failover_uses_configured_providers:
  "(\<exists>calls. generateText_log (snd (callWithFailover r role prompt opts))
               = generateText_log r @ calls
        \<and> (\<forall>n \<in> set calls. configured r (Some n))
        \<and> (\<forall>rc. roles (config r) role = Some rc
               \<and> \<not> configured r (primaryClientName (config r) rc) \<longrightarrow>
               prop_key (primaryClientName (config r) rc) \<notin> set calls))
    \<and> (\<forall>rc c res. roles (config r) role = Some rc
          \<and> \<not> configured r (primaryClientName (config r) rc)
          \<and> truthy (fallbackClientName (config r) rc)
          \<and> getClient r (fallbackClientName (config r) rc) = Some c \<and> isConfigured c
          \<and> generateText c prompt opts = Inr res \<longrightarrow>
          fst (callWithFailover r role prompt opts)
            = Inr \<lparr>a_text = (case g_text res of
                               Some (c # cs) \<Rightarrow> c # cs
                             | _ \<Rightarrow> (case g_content res of Some t \<Rightarrow> t | None \<Rightarrow> [])),
                   a_content = g_content res, a_usage = g_usage res, a_model = g_model res\<rparr>
          \<and> generateText_log (snd (callWithFailover r role prompt opts))
              = generateText_log r @ [prop_key (fallbackClientName (config r) rc)])
    \<and> (\<forall>rc. roles (config r) role = Some rc
          \<and> \<not> configured r (primaryClientName (config r) rc)
          \<and> \<not> (truthy (fallbackClientName (config r) rc)
                \<and> configured r (fallbackClientName (config r) rc)) \<longrightarrow>
          callWithFailover r role prompt opts
            = (Inl (Error (''No configured AI models available for role: '' @ role)), r))
    \<and> (roles (config r) role = None \<longrightarrow>
          callWithFailover r role prompt opts = (Inl (Error (''Unknown role: '' @ role)), r))"
proof (cases "roles (config r) role")
  case None
  then have u: "callWithFailover r role prompt opts = (Inl (Error (''Unknown role: '' @ role)), r)"
    by (simp add: callWithFailover_def)
  then have "generateText_log (snd (callWithFailover r role prompt opts)) = generateText_log r @ []"
    by simp
  with None u show ?thesis by fastforce
next
  case (Some rc)
  have k: "roles (config r) role = Some rc' \<Longrightarrow> rc' = rc" for rc'
    using Some by simp
  note known = failover_known_role [OF Some, of prompt opts]
  from known obtain calls where
    c1: "generateText_log (snd (callWithFailover r role prompt opts)) = generateText_log r @ calls"
    and c2: "\<forall>n \<in> set calls. configured r (Some n)"
    and c3: "\<not> configured r (primaryClientName (config r) rc) \<longrightarrow>
              prop_key (primaryClientName (config r) rc) \<notin> set calls"
    by blast
  have "\<forall>rc'. roles (config r) role = Some rc'
               \<and> \<not> configured r (primaryClientName (config r) rc') \<longrightarrow>
               prop_key (primaryClientName (config r) rc') \<notin> set calls"
    using c3 k by blast
  with c1 c2 have 1: "\<exists>calls. generateText_log (snd (callWithFailover r role prompt opts))
               = generateText_log r @ calls
        \<and> (\<forall>n \<in> set calls. configured r (Some n))
        \<and> (\<forall>rc. roles (config r) role = Some rc
               \<and> \<not> configured r (primaryClientName (config r) rc) \<longrightarrow>
               prop_key (primaryClientName (config r) rc) \<notin> set calls)"
    by blast
  have 2: "\<forall>rc c res. roles (config r) role = Some rc
          \<and> \<not> configured r (primaryClientName (config r) rc)
          \<and> truthy (fallbackClientName (config r) rc)
          \<and> getClient r (fallbackClientName (config r) rc) = Some c \<and> isConfigured c
          \<and> generateText c prompt opts = Inr res \<longrightarrow>
          fst (callWithFailover r role prompt opts)
            = Inr \<lparr>a_text = (case g_text res of
                               Some (c # cs) \<Rightarrow> c # cs
                             | _ \<Rightarrow> (case g_content res of Some t \<Rightarrow> t | None \<Rightarrow> [])),
                   a_content = g_content res, a_usage = g_usage res, a_model = g_model res\<rparr>
          \<and> generateText_log (snd (callWithFailover r role prompt opts))
              = generateText_log r @ [prop_key (fallbackClientName (config r) rc)]"
  proof (intro allI impI)
    fix rc' c res
    assume h: "roles (config r) role = Some rc'
          \<and> \<not> configured r (primaryClientName (config r) rc')
          \<and> truthy (fallbackClientName (config r) rc')
          \<and> getClient r (fallbackClientName (config r) rc') = Some c \<and> isConfigured c
          \<and> generateText c prompt opts = Inr res"
    then have "rc' = rc" using k by blast
    with h known have "fst (callWithFailover r role prompt opts) = Inr (normalized res)
          \<and> generateText_log (snd (callWithFailover r role prompt opts))
              = generateText_log r @ [prop_key (fallbackClientName (config r) rc')]"
      by blast
    then show "fst (callWithFailover r role prompt opts)
            = Inr \<lparr>a_text = (case g_text res of
                               Some (c # cs) \<Rightarrow> c # cs
                             | _ \<Rightarrow> (case g_content res of Some t \<Rightarrow> t | None \<Rightarrow> [])),
                   a_content = g_content res, a_usage = g_usage res, a_model = g_model res\<rparr>
          \<and> generateText_log (snd (callWithFailover r role prompt opts))
              = generateText_log r @ [prop_key (fallbackClientName (config r) rc')]"
      by (simp only: normalized_fields)
  qed
  have 3: "\<forall>rc. roles (config r) role = Some rc
          \<and> \<not> configured r (primaryClientName (config r) rc)
          \<and> \<not> (truthy (fallbackClientName (config r) rc)
                \<and> configured r (fallbackClientName (config r) rc)) \<longrightarrow>
          callWithFailover r role prompt opts
            = (Inl (Error (''No configured AI models available for role: '' @ role)), r)"
  proof (intro allI impI)
    fix rc'
    assume h: "roles (config r) role = Some rc'
          \<and> \<not> configured r (primaryClientName (config r) rc')
          \<and> \<not> (truthy (fallbackClientName (config r) rc')
                \<and> configured r (fallbackClientName (config r) rc'))"
    then have "rc' = rc" using k by blast
    with h known have "callWithFailover r role prompt opts = (Inl (NoProviderAvailable role), r)"
      by blast
    then show "callWithFailover r role prompt opts
            = (Inl (Error (''No configured AI models available for role: '' @ role)), r)"
      by (simp only: NoProviderAvailable_def)
  qed
  have 4: "roles (config r) role = None \<longrightarrow>
          callWithFailover r role prompt opts = (Inl (Error (''Unknown role: '' @ role)), r)"
    using Some by simp
  from 1 2 3 4 show ?thesis by blast
qed

theorem failover_uses_configured_providers_witness:
  "fst (callWithFailover
          (example_router (example_client False (Inl (Error ''Anthropic API key not configured'')))
                          (example_client True (Inr (example_answer ''{}''))))
          ''COMPLIANCE'' ''Analyze'' example_options)
     = Inr \<lparr>a_text = ''{}'', a_content = None,
            a_usage = Some \<lparr>total_tokens = Some 120, prompt_tokens = None,
                             completion_tokens = None,
                             input_tokens = Some 100, output_tokens = Some 20\<rparr>,
            a_model = Some ''example-model''\<rparr>
   \<and> generateText_log (snd (callWithFailover
          (example_router (example_client False (Inl (Error ''Anthropic API key not configured'')))
                          (example_client True (Inr (example_answer ''{}''))))
          ''COMPLIANCE'' ''Analyze'' example_options))
     = [''openai'']
   \<and> fst (callWithFailover
          (example_router (example_client False (Inl (Error ''Anthropic API key not configured'')))
                          (example_client True (Inr (example_content_answer ''[]''))))
          ''COMPLIANCE'' ''Analyze'' example_options)
     = Inr \<lparr>a_text = ''[]'', a_content = Some ''[]'', a_usage = None,
            a_model = Some ''example-model''\<rparr>
   \<and> callWithFailover
          (example_router (example_client False (Inl (Error ''Anthropic API key not configured'')))
                          (example_client False (Inl (Error ''OpenAI API key not configured''))))
          ''COMPLIANCE'' ''Analyze'' example_options
     = (Inl (Error ''No configured AI models available for role: COMPLIANCE''),
        example_router (example_client False (Inl (Error ''Anthropic API key not configured'')))
                       (example_client False (Inl (Error ''OpenAI API key not configured''))))
   \<and> callWithFailover
          (example_router (example_client False (Inl (Error ''Anthropic API key not configured'')))
                          (example_client True (Inr (example_answer ''{}''))))
          ''EDITING'' ''Analyze'' example_options
     = (Inl (Error ''Unknown role: EDITING''),
        example_router (example_client False (Inl (Error ''Anthropic API key not configured'')))
                       (example_client True (Inr (example_answer ''{}''))))"
proof -
  let ?c1 = "example_client False (Inl (Error ''Anthropic API key not configured''))"
  let ?c2 = "example_client True (Inr (example_answer ''{}''))"
  let ?c3 = "example_client False (Inl (Error ''OpenAI API key not configured''))"
  let ?c4 = "example_client True (Inr (example_content_answer ''[]''))"
  have a: "fst (callWithFailover (example_router ?c1 ?c2) ''COMPLIANCE'' ''Analyze'' example_options)
             = Inr \<lparr>a_text = ''{}'', a_content = None,
                    a_usage = Some \<lparr>total_tokens = Some 120, prompt_tokens = None,
                                     completion_tokens = None,
                                     input_tokens = Some 100, output_tokens = Some 20\<rparr>,
                    a_model = Some ''example-model''\<rparr>
           \<and> generateText_log (snd (callWithFailover (example_router ?c1 ?c2)
                 ''COMPLIANCE'' ''Analyze'' example_options))
             = generateText_log (example_router ?c1 ?c2) @ [prop_key (Some ''openai'')]"
    using failover_uses_configured_providers
            [of "example_router ?c1 ?c2" "''COMPLIANCE''" "''Analyze''" example_options,
             THEN conjunct2, THEN conjunct1, rule_format,
             of example_role ?c2 "example_answer ''{}''"]
    by (simp add: example_names configured_def truthy_def example_client_def example_answer_def)
  have a': "fst (callWithFailover (example_router ?c1 ?c4) ''COMPLIANCE'' ''Analyze'' example_options)
             = Inr \<lparr>a_text = ''[]'', a_content = Some ''[]'', a_usage = None,
                    a_model = Some ''example-model''\<rparr>"
    using failover_uses_configured_providers
            [of "example_router ?c1 ?c4" "''COMPLIANCE''" "''Analyze''" example_options,
             THEN conjunct2, THEN conjunct1, rule_format,
             of example_role ?c4 "example_content_answer ''[]''"]
    by (simp add: example_names configured_def truthy_def example_client_def
        example_content_answer_def)
  have b: "callWithFailover (example_router ?c1 ?c3) ''COMPLIANCE'' ''Analyze'' example_options
             = (Inl (Error ''No configured AI models available for role: COMPLIANCE''),
                example_router ?c1 ?c3)"
    using failover_uses_configured_providers
            [of "example_router ?c1 ?c3" "''COMPLIANCE''" "''Analyze''" example_options,
             THEN conjunct2, THEN conjunct2, THEN conjunct1, rule_format, of example_role]
    by (simp add: example_names configured_def truthy_def example_client_def)
  have c: "callWithFailover (example_router ?c1 ?c2) ''EDITING'' ''Analyze'' example_options
             = (Inl (Error ''Unknown role: EDITING''), example_router ?c1 ?c2)"
    using failover_uses_configured_providers
            [of "example_router ?c1 ?c2" "''EDITING''" "''Analyze''" example_options,
             THEN conjunct2, THEN conjunct2, THEN conjunct2]
    by (simp add: example_router_def example_config_def)
  have "generateText_log (example_router ?c1 ?c2) @ [prop_key (Some ''openai'')] = [''openai'']"
    by (simp add: example_router_def prop_key_def)
  with a a' b c show ?thesis by simp
qed

subsection \<open>The primary's error is dropped, the fallback's is thrown (C3)\<close>

text \<open>
  C3. When the configured primary's \<^verbatim>\<open>generateText\<close> throws \<open>e\<close>, the outcome of
  \<open>callWithFailover\<close> is that of the fallback alone, whatever \<open>e\<close> is: the fallback's
  result if it is configured and returns, the fallback's own error if it throws, and the
  error "No configured AI models available" if there is no configured fallback. And
  whenever the fallback is reached (the primary did not return a result) and its
  \<^verbatim>\<open>generateText\<close> throws \<open>e'\<close>, the caller gets exactly \<open>e'\<close>.
\<close>

theorem failover_error_asymmetry:
  assumes "roles (config r) role = Some rc"
  shows
   "(\<forall>pc e. getClient r (primaryClientName (config r) rc) = Some pc \<and> isConfigured pc
        \<and> generateText pc prompt opts = Inl e \<longrightarrow>
        fst (callWithFailover r role prompt opts) =
          (if truthy (fallbackClientName (config r) rc) then
             (case getClient r (fallbackClientName (config r) rc) of
                None \<Rightarrow> Inl (NoProviderAvailable role)
              | Some fc \<Rightarrow>
                  if isConfigured fc then
                    (case generateText fc prompt opts of
                       Inl e' \<Rightarrow> Inl e'
                     | Inr res \<Rightarrow> Inr (normalized res))
                  else Inl (NoProviderAvailable role))
           else Inl (NoProviderAvailable role)))
    \<and> (\<forall>fc e'. \<not> (\<exists>pc res. getClient r (primaryClientName (config r) rc) = Some pc
                       \<and> isConfigured pc \<and> generateText pc prompt opts = Inr res)
        \<and> truthy (fallbackClientName (config r) rc)
        \<and> getClient r (fallbackClientName (config r) rc) = Some fc \<and> isConfigured fc
        \<and> generateText fc prompt opts = Inl e' \<longrightarrow>
        fst (callWithFailover r role prompt opts) = Inl e')"
proof -
  let ?p = "primaryClientName (config r) rc"
  let ?f = "fallbackClientName (config r) rc"
  let ?a = "attempt r ?p prompt opts"
  have ca: "clients (snd ?a) = clients r"
    using attempt_frame [of r ?p prompt opts] by blast
  have gf: "getClient (snd ?a) ?f = getClient r ?f"
    by (rule configured_frame(2) [OF ca])
  have fb: "fst (attempt (snd ?a) ?f prompt opts) =
              (case getClient r ?f of
                 None \<Rightarrow> None
               | Some fc \<Rightarrow>
                   if isConfigured fc then
                     (case generateText fc prompt opts of
                        Inl e' \<Rightarrow> Some (Inl e')
                      | Inr res \<Rightarrow> Some (Inr (normalized res)))
                   else None)"
    by (simp only: attempt_fst gf)
  have 1: "fst (callWithFailover r role prompt opts) =
          (if truthy ?f then
             (case getClient r ?f of
                None \<Rightarrow> Inl (NoProviderAvailable role)
              | Some fc \<Rightarrow>
                  if isConfigured fc then
                    (case generateText fc prompt opts of
                       Inl e' \<Rightarrow> Inl e'
                     | Inr res \<Rightarrow> Inr (normalized res))
                  else Inl (NoProviderAvailable role))
           else Inl (NoProviderAvailable role))"
    if "getClient r ?p = Some pc" "isConfigured pc" "generateText pc prompt opts = Inl e" for pc e
  proof -
    have "fst ?a = Some (Inl e)"
      by (simp add: attempt_throws [OF that])
    then show ?thesis
      by (simp add: callWithFailover_unfold [OF assms] Let_def fb split: option.splits sum.splits)
  qed
  have 2: "fst (callWithFailover r role prompt opts) = Inl e'"
    if "\<not> (\<exists>pc res. getClient r ?p = Some pc \<and> isConfigured pc
              \<and> generateText pc prompt opts = Inr res)"
       "truthy ?f" "getClient r ?f = Some fc" "isConfigured fc"
       "generateText fc prompt opts = Inl e'" for fc e'
  proof -
    have "\<forall>x. fst ?a \<noteq> Some (Inr x)"
      using that(1) by (auto simp: attempt_fst split: option.splits sum.splits if_splits)
    moreover have "fst (attempt (snd ?a) ?f prompt opts) = Some (Inl e')"
      by (simp add: fb that)
    ultimately show ?thesis
      by (simp add: callWithFailover_unfold [OF assms] Let_def that(2) split: option.splits sum.splits)
  qed
  from 1 2 show ?thesis by blast
qed

theorem failover_error_asymmetry_witness:
  "fst (callWithFailover
          (example_router (example_client True (Inl (Error ''Anthropic API error: overloaded'')))
                          (example_client True (Inl (Error ''OpenAI API error: rate limit''))))
          ''COMPLIANCE'' ''Analyze'' example_options)
     = Inl (Error ''OpenAI API error: rate limit'')
   \<and> fst (callWithFailover
          (example_router (example_client True (Inl (Error ''Anthropic API error: overloaded'')))
                          (example_client True (Inr (example_answer ''{}''))))
          ''COMPLIANCE'' ''Analyze'' example_options)
     = Inr (normalized (example_answer ''{}''))
   \<and> fst (callWithFailover
          (example_router (example_client False (Inl (Error ''Anthropic API key not configured'')))
                          (example_client True (Inl (Error ''OpenAI API error: rate limit''))))
          ''COMPLIANCE'' ''Analyze'' example_options)
     = Inl (Error ''OpenAI API error: rate limit'')"
proof -
  let ?p = "example_client True (Inl (Error ''Anthropic API error: overloaded''))"
  let ?u = "example_client False (Inl (Error ''Anthropic API key not configured''))"
  let ?f = "example_client True (Inl (Error ''OpenAI API error: rate limit''))"
  let ?g = "example_client True (Inr (example_answer ''{}''))"
  have a: "fst (callWithFailover (example_router ?p ?f) ''COMPLIANCE'' ''Analyze'' example_options)
             = Inl (Error ''OpenAI API error: rate limit'')"
    using failover_error_asymmetry
            [OF example_names(1) [of ?p ?f], of "''Analyze''" example_options,
             THEN conjunct1, rule_format, of ?p "Error ''Anthropic API error: overloaded''"]
    by (simp add: example_names truthy_def example_client_def)
  have b: "fst (callWithFailover (example_router ?p ?g) ''COMPLIANCE'' ''Analyze'' example_options)
             = Inr (normalized (example_answer ''{}''))"
    using failover_error_asymmetry
            [OF example_names(1) [of ?p ?g], of "''Analyze''" example_options,
             THEN conjunct1, rule_format, of ?p "Error ''Anthropic API error: overloaded''"]
    by (simp add: example_names truthy_def example_client_def)
  have c: "fst (callWithFailover (example_router ?u ?f) ''COMPLIANCE'' ''Analyze'' example_options)
             = Inl (Error ''OpenAI API error: rate limit'')"
    using failover_error_asymmetry
            [OF example_names(1) [of ?u ?f], of "''Analyze''" example_options,
             THEN conjunct2, rule_format, of ?f "Error ''OpenAI API error: rate limit''"]
    by (simp add: example_names truthy_def example_client_def)
  from a b c show ?thesis by simp
qed

section \<open>Rule evaluation\<close>

lemma example_basic_checks:
  "performBasicChecks (literal_platform T) (example_rules W) example_content = Some example_basic"
  by code_simp

lemma check_critical_elements:
  "check_critical pf t rs acc = Some acc' \<Longrightarrow> required_elements acc' = required_elements acc"
  by (induction rs arbitrary: acc) (auto split: option.splits if_splits)

lemma check_terminology_elements:
  "check_terminology pf t rs acc = Some acc' \<Longrightarrow> required_elements acc' = required_elements acc"
  by (induction rs arbitrary: acc) (auto split: option.splits if_splits)

lemma check_disclaimers_found:
  "check_disclaimers pf t rs acc = Some acc' \<Longrightarrow> list_all e_found (required_elements acc)
     \<Longrightarrow> list_all e_found (required_elements acc')"
proof (induction rs arbitrary: acc)
  case Nil
  then show ?case by simp
next
  case (Cons rule rs)
  from Cons.prems(1) obtain ms where ms: "findMatches pf t rule = Some ms"
    by (auto split: option.splits)
  show ?case
  proof (cases "length ms = 0 \<and> r_required rule")
    case True
    with Cons.prems ms show ?thesis by (auto intro!: Cons.IH)
  next
    case False
    show ?thesis
    proof (cases "length ms > 0")
      case True
      with Cons.prems ms False show ?thesis
        by (auto intro!: Cons.IH [where acc = "acc\<lparr>required_elements := required_elements acc @
                 [\<lparr>e_id = r_id rule, e_type = ''disclaimer'', e_description = r_description rule,
                   e_found = True, e_location = None,
                   e_asqa_reference = r_asqa_reference rule\<rparr>]\<rparr>"])
    next
      case f: False
      with Cons.prems ms False show ?thesis by (auto intro!: Cons.IH)
    qed
  qed
qed

lemma check_web_found:
  "list_all e_found (required_elements acc)
     \<Longrightarrow> list_all e_found (required_elements (check_web cont t rs acc))"
  by (induction rs arbitrary: acc) (simp_all add: Let_def)

lemma basic_checks_found:
  assumes "performBasicChecks pf rules cont = Some b"
  shows "list_all e_found (required_elements b)"
proof -
  let ?t = "str_or_lit (c_text cont) []"
  from assms obtain a1 a2 a3 where
    1: "check_critical pf ?t (critical_violations rules)
          \<lparr>violations = [], required_elements = [], passed_rules = []\<rparr> = Some a1"
    and 2: "check_terminology pf ?t (required_terminology rules) a1 = Some a2"
    and 3: "check_disclaimers pf ?t (required_disclaimers rules) a2 = Some a3"
    and b: "required_elements b
              = required_elements (check_web cont ?t (web_specific_requirements rules) a3)"
    by (auto simp: performBasicChecks_def Let_def split: bind_splits)
  have "required_elements a1 = []" using check_critical_elements [OF 1] by simp
  then have "required_elements a2 = []" using check_terminology_elements [OF 2] by simp
  then have "list_all e_found (required_elements a3)"
    using check_disclaimers_found [OF 3] by simp
  then show ?thesis unfolding b by (rule check_web_found)
qed

subsection \<open>Every required element is a found one (C10)\<close>

text \<open>
  C10. Every required-element record that \<open>performBasicChecks\<close> produces has its
  \<open>found\<close> flag set: an element that is missing gives a violation or nothing, never a
  record with \<open>found = False\<close>. So for the rule evaluation's output, merged with any AI
  answer, the check that all required elements are found is true whenever the list is
  not empty, and the score gets the bonus of 5 exactly when the list is not empty.
\<close>

theorem required_elements_all_found:
  assumes "performBasicChecks pf rules cont = Some b"
  shows "list_all e_found (required_elements b)
       \<and> (\<forall>fl ai res. combineResults b ai = Inr res \<longrightarrow>
            calculateComplianceScore fl rules res =
              Math_round_num
                (if required_elements b \<noteq> []
                 then Math_min (Fin 100)
                        (num_plus fl
                           (Math_max (Fin 0)
                              (deduct fl (severity_weights rules) (Fin 100) (violations res)))
                           (Fin 5))
                 else Math_max (Fin 0)
                        (deduct fl (severity_weights rules) (Fin 100) (violations res))))"
proof -
  have f: "list_all e_found (required_elements b)"
    by (rule basic_checks_found [OF assms])
  have "calculateComplianceScore fl rules res =
              Math_round_num
                (if required_elements b \<noteq> []
                 then Math_min (Fin 100)
                        (num_plus fl
                           (Math_max (Fin 0)
                              (deduct fl (severity_weights rules) (Fin 100) (violations res)))
                           (Fin 5))
                 else Math_max (Fin 0)
                        (deduct fl (severity_weights rules) (Fin 100) (violations res)))"
    if "combineResults b ai = Inr res" for fl ai res
  proof -
    from that have "required_elements res = required_elements b"
      by (auto simp: combineResults_def Let_def split: option.splits ai_violations.splits)
    with f show ?thesis by (simp add: calculateComplianceScore_def Let_def)
  qed
  with f show ?thesis by blast
qed

theorem required_elements_all_found_witness:
  "performBasicChecks (literal_platform []) (example_rules 50) example_content = Some example_basic
   \<and> required_elements example_basic \<noteq> []
   \<and> list_all e_found (required_elements example_basic)
   \<and> combineResults example_basic None
       = Inr \<lparr>violations = violations example_basic,
              required_elements = required_elements example_basic,
              passed_rules = passed_rules example_basic\<rparr>
   \<and> calculateComplianceScore (double_round (literal_platform [])) (example_rules 50)
         \<lparr>violations = violations example_basic,
          required_elements = required_elements example_basic,
          passed_rules = passed_rules example_basic\<rparr> = Fin 45"
proof -
  let ?fl = "double_round (literal_platform [])"
  have b: "performBasicChecks (literal_platform []) (example_rules 50) example_content
             = Some example_basic"
    by (rule example_basic_checks)
  have c: "combineResults example_basic None
       = Inr \<lparr>violations = violations example_basic,
              required_elements = required_elements example_basic,
              passed_rules = passed_rules example_basic\<rparr>"
    by (simp add: combineResults_def)
  have n: "required_elements example_basic \<noteq> []" by (simp add: example_basic_def)
  have d: "deduct ?fl (severity_weights (example_rules 50)) (Fin 100) (violations example_basic)
             = Fin 40"
    by (simp add: example_basic_def example_rules_def weight_of_def literal_platform_def)
  from required_elements_all_found [OF b]
  have f: "list_all e_found (required_elements example_basic)"
    and s: "calculateComplianceScore ?fl (example_rules 50)
         \<lparr>violations = violations example_basic,
          required_elements = required_elements example_basic,
          passed_rules = passed_rules example_basic\<rparr>
        = Math_round_num
            (if required_elements example_basic \<noteq> []
             then Math_min (Fin 100)
                    (num_plus ?fl
                       (Math_max (Fin 0)
                          (deduct ?fl (severity_weights (example_rules 50)) (Fin 100)
                             (violations example_basic)))
                       (Fin 5))
             else Math_max (Fin 0)
                    (deduct ?fl (severity_weights (example_rules 50)) (Fin 100)
                       (violations example_basic)))"
    using c by auto
  have "calculateComplianceScore ?fl (example_rules 50)
         \<lparr>violations = violations example_basic,
          required_elements = required_elements example_basic,
          passed_rules = passed_rules example_basic\<rparr> = Fin (of_int (Math_round (of_int 45)))"
    unfolding s d using n
    by (simp add: Math_max_def Math_min_def literal_platform_def)
  then have "calculateComplianceScore ?fl (example_rules 50)
         \<lparr>violations = violations example_basic,
          required_elements = required_elements example_basic,
          passed_rules = passed_rules example_basic\<rparr> = Fin 45"
    by (simp only: Math_round_of_int) simp
  with b c n f show ?thesis by blast
qed

subsection \<open>A rule with a malformed pattern (C9)\<close>

lemma findMatches_malformed:
  assumes "malformed pf rule"
  shows "findMatches pf t rule = Some []"
  using assms by (simp add: findMatches_def malformed_def)

lemma findMatches_neutralised:
  "findMatches pf t (neutralised pf rule) = findMatches pf t rule"
  by (simp add: findMatches_def neutralised_def malformed_def truthy_def)

lemma neutralised_fields:
  "r_id (neutralised pf rule) = r_id rule"
  "r_name (neutralised pf rule) = r_name rule"
  "r_category (neutralised pf rule) = r_category rule"
  "r_description (neutralised pf rule) = r_description rule"
  "r_required (neutralised pf rule) = r_required rule"
  "r_correction (neutralised pf rule) = r_correction rule"
  "r_asqa_reference (neutralised pf rule) = r_asqa_reference rule"
  "getRuleRecommendation (neutralised pf rule) = getRuleRecommendation rule"
  "match_violation (neutralised pf rule) = match_violation rule"
  "missing_violation (neutralised pf rule) = missing_violation rule"
  by (auto simp: neutralised_def getRuleRecommendation_def match_violation_def
      missing_violation_def fun_eq_iff)

lemma check_critical_neutralised:
  "check_critical pf t (map (neutralised pf) rs) acc = check_critical pf t rs acc"
  by (induction rs arbitrary: acc)
     (simp_all add: findMatches_neutralised neutralised_fields split: option.splits)

lemma check_terminology_neutralised:
  "check_terminology pf t (map (neutralised pf) rs) acc = check_terminology pf t rs acc"
  by (induction rs arbitrary: acc)
     (simp_all add: findMatches_neutralised neutralised_fields split: option.splits)

lemma check_disclaimers_neutralised:
  "check_disclaimers pf t (map (neutralised pf) rs) acc = check_disclaimers pf t rs acc"
  by (induction rs arbitrary: acc)
     (simp_all add: findMatches_neutralised neutralised_fields split: option.splits)

lemma basic_checks_neutralised:
  "performBasicChecks pf (neutralised_rules pf rules) cont = performBasicChecks pf rules cont"
  by (simp add: performBasicChecks_def neutralised_rules_def check_critical_neutralised
      check_terminology_neutralised check_disclaimers_neutralised)

lemma check_critical_returns:
  "\<forall>rule \<in> set rs. findMatches pf t rule \<noteq> None \<Longrightarrow> \<exists>acc'. check_critical pf t rs acc = Some acc'"
  by (induction rs arbitrary: acc) (auto split: option.splits)

lemma check_terminology_returns:
  "\<forall>rule \<in> set rs. findMatches pf t rule \<noteq> None \<Longrightarrow> \<exists>acc'. check_terminology pf t rs acc = Some acc'"
  by (induction rs arbitrary: acc) (auto split: option.splits)

lemma check_disclaimers_returns:
  "\<forall>rule \<in> set rs. findMatches pf t rule \<noteq> None \<Longrightarrow> \<exists>acc'. check_disclaimers pf t rs acc = Some acc'"
  by (induction rs arbitrary: acc) (auto split: option.splits)

lemma basic_checks_return:
  assumes "\<forall>rule \<in> set (pattern_rules rules).
             findMatches pf (str_or_lit (c_text cont) []) rule \<noteq> None"
  shows "\<exists>b. performBasicChecks pf rules cont = Some b"
proof -
  let ?t = "str_or_lit (c_text cont) []"
  from assms obtain a1 where 1: "check_critical pf ?t (critical_violations rules)
          \<lparr>violations = [], required_elements = [], passed_rules = []\<rparr> = Some a1"
    using check_critical_returns [of "critical_violations rules" pf ?t]
    by (auto simp: pattern_rules_def)
  from assms obtain a2 where 2: "check_terminology pf ?t (required_terminology rules) a1 = Some a2"
    using check_terminology_returns [of "required_terminology rules" pf ?t a1]
    by (auto simp: pattern_rules_def)
  from assms obtain a3 where 3: "check_disclaimers pf ?t (required_disclaimers rules) a2 = Some a3"
    using check_disclaimers_returns [of "required_disclaimers rules" pf ?t a2]
    by (auto simp: pattern_rules_def)
  show ?thesis by (simp add: performBasicChecks_def Let_def 1 2 3)
qed

lemma small_checks:
  "performBasicChecks (literal_platform T) (small_rules [rule_malformed] []) example_content
     = Some \<lparr>violations = [], required_elements = [],
             passed_rules =
               [\<lparr>p_id = ''cv_002'', p_category = ''critical_violations'',
                 p_type = ''critical_violation'', p_description = ''Salary promise'',
                 p_status = ''passed'', p_message = ''No forbidden salary promise found'',
                 p_location = None, p_asqa_reference = ''Standard 4.1''\<rparr>],
             b_method = ''rule_based''\<rparr>"
  "performBasicChecks (literal_platform T) (small_rules [] []) example_content
     = Some \<lparr>violations = [], required_elements = [], passed_rules = [],
             b_method = ''rule_based''\<rparr>"
  "performBasicChecks (literal_platform T) (small_rules [] [rule_rpl\<lparr>r_pattern := Some ''(''\<rparr>])
      example_content
     = Some \<lparr>violations =
               [\<lparr>v_id = ''rd_001'', v_category = ''required_disclaimers'',
                 v_severity = ''warning'',
                 v_description = ''Missing required disclaimer: RPL availability'',
                 v_text_found = [], v_location = ''entire_page'',
                 v_recommendation = Some ''Add: RPL availability'',
                 v_asqa_reference = Some ''Standard 1.12'', v_source = None\<rparr>],
             required_elements = [], passed_rules = [], b_method = ''rule_based''\<rparr>"
  "malformed (literal_platform T) rule_malformed"
  "malformed (literal_platform T) (rule_rpl\<lparr>r_pattern := Some ''(''\<rparr>)"
  by code_simp+

text \<open>
  The claim C9 as stated fails in one part: the rule with the malformed pattern does
  contribute to the output. \<open>findMatches\<close> returns the empty list for it, and the
  caller reads that as "no match": a critical rule is recorded as passed, and a
  required disclaimer is reported as missing. The output differs from the output
  without the rule.
\<close>

theorem malformed_rule_counterexample:
  "malformed (literal_platform []) rule_malformed
   \<and> performBasicChecks (literal_platform []) (small_rules [rule_malformed] []) example_content
       \<noteq> performBasicChecks (literal_platform []) (small_rules [] []) example_content
   \<and> map p_message (passed_rules (the (performBasicChecks (literal_platform [])
          (small_rules [rule_malformed] []) example_content)))
       = [''No forbidden salary promise found'']
   \<and> malformed (literal_platform []) (rule_rpl\<lparr>r_pattern := Some ''(''\<rparr>)
   \<and> performBasicChecks (literal_platform [])
         (small_rules [] [rule_rpl\<lparr>r_pattern := Some ''(''\<rparr>]) example_content
       \<noteq> performBasicChecks (literal_platform []) (small_rules [] []) example_content
   \<and> map v_description (violations (the (performBasicChecks (literal_platform [])
          (small_rules [] [rule_rpl\<lparr>r_pattern := Some ''(''\<rparr>]) example_content)))
       = [''Missing required disclaimer: RPL availability'']"
  by (simp add: small_checks)

text \<open>
  C9, amended. When a rule's pattern is malformed, the failure is caught per rule:
  \<open>findMatches\<close> returns the empty list for it, the evaluation goes on with the
  remaining rules, and it returns whenever the matching of the well-formed rules ends,
  however many rules are malformed. The rule is treated as a rule without a match: the
  output is the output of the same rule set with the malformed patterns taken away.
\<close>

theorem malformed_rule_is_a_rule_without_match:
  "(malformed pf rule \<longrightarrow> findMatches pf t rule = Some [])
   \<and> performBasicChecks pf rules cont = performBasicChecks pf (neutralised_rules pf rules) cont
   \<and> ((\<forall>rule \<in> set (pattern_rules rules).
          \<not> malformed pf rule \<longrightarrow> findMatches pf (str_or_lit (c_text cont) []) rule \<noteq> None)
        \<longrightarrow> (\<exists>b. performBasicChecks pf rules cont = Some b))"
proof -
  have "\<exists>b. performBasicChecks pf rules cont = Some b"
    if h: "\<forall>rule \<in> set (pattern_rules rules).
          \<not> malformed pf rule \<longrightarrow> findMatches pf (str_or_lit (c_text cont) []) rule \<noteq> None"
  proof (rule basic_checks_return)
    show "\<forall>rule \<in> set (pattern_rules rules).
             findMatches pf (str_or_lit (c_text cont) []) rule \<noteq> None"
    proof
      fix rule assume r: "rule \<in> set (pattern_rules rules)"
      show "findMatches pf (str_or_lit (c_text cont) []) rule \<noteq> None"
      proof (cases "malformed pf rule")
        case True
        then show ?thesis by (simp add: findMatches_malformed)
      next
        case False
        with h r show ?thesis by blast
      qed
    qed
  qed
  then show ?thesis
    by (simp add: findMatches_malformed basic_checks_neutralised)
qed

theorem malformed_rule_is_a_rule_without_match_witness:
  "malformed (literal_platform []) rule_malformed
   \<and> findMatches (literal_platform []) ''A guaranteed job.'' rule_malformed = Some []
   \<and> performBasicChecks (literal_platform []) (example_rules 50) example_content
       = performBasicChecks (literal_platform [])
           (neutralised_rules (literal_platform []) (example_rules 50)) example_content
   \<and> (\<exists>b. performBasicChecks (literal_platform []) (example_rules 50) example_content = Some b)"
proof -
  have m: "malformed (literal_platform []) rule_malformed" by (rule small_checks(4))
  have r: "\<forall>rule \<in> set (pattern_rules (example_rules 50)).
          \<not> malformed (literal_platform []) rule \<longrightarrow>
          findMatches (literal_platform []) (str_or_lit (c_text example_content) []) rule \<noteq> None"
    by code_simp
  from malformed_rule_is_a_rule_without_match
         [of "literal_platform []" rule_malformed "''A guaranteed job.''" "example_rules 50"
             example_content] m r
  show ?thesis by blast
qed

section \<open>Failures of the AI analysis (C2)\<close>

lemma score_of_basic:
  "calculateComplianceScore fl rules
     \<lparr>violations = violations b, required_elements = required_elements b,
      passed_rules = passed_rules b\<rparr> = calculateComplianceScore fl rules b"
  by (simp add: calculateComplianceScore_def)

lemma check_router_failure:
  assumes "performBasicChecks pf rules cont = Some b"
    and "fst (callWithFailover r ''COMPLIANCE'' (compliance_prompt cont opts) compliance_call_options) = Inl e"
  shows "\<exists>res r1. check_with_rules pf amb rules r cont opts = Some (Inr res, r1)
           \<and> cr_ai_analysis res = None \<and> built_from_rules (double_round pf) rules b res"
proof -
  obtain out r1 where c: "callWithFailover r ''COMPLIANCE'' (compliance_prompt cont opts)
                            compliance_call_options = (out, r1)"
    by (cases "callWithFailover r ''COMPLIANCE'' (compliance_prompt cont opts) compliance_call_options")
  with assms(2) have o: "out = Inl e" by simp
  have a: "fst (performAIAnalysis pf amb r cont
                 (case o_pageType opts of None \<Rightarrow> ''general'' | Some p \<Rightarrow> p))
             = Inl (Error (''AI analysis failed: '' @ message e))"
    using c o by (simp add: performAIAnalysis_def compliance_prompt_def compliance_call_options_def)
  show ?thesis
    using a assms(1)
    by (auto simp: check_with_rules_def Let_def combineResults_def built_from_rules_def
        score_of_basic split: prod.splits sum.splits)
qed

lemma check_parse_failure:
  assumes "performBasicChecks pf rules cont = Some b"
    and "(case o_useAI opts of None \<Rightarrow> True | Some u \<Rightarrow> u) \<and> isAIConfigured r"
    and "fst (callWithFailover r ''COMPLIANCE'' (compliance_prompt cont opts) compliance_call_options) = Inr result"
    and "JSON_parse pf (a_text result) = None"
  shows "\<exists>res r1. check_with_rules pf amb rules r cont opts = Some (Inr res, r1)
           \<and> built_from_rules (double_round pf) rules b res
           \<and> cr_ai_analysis res =
               Some \<lparr>model_used = str_or_lit (a_model result) ''unknown'',
                     confidence = 85 / 100, processing_time = elapsed_ms amb\<rparr>"
proof -
  obtain out r1 where c: "callWithFailover r ''COMPLIANCE'' (compliance_prompt cont opts)
                            compliance_call_options = (out, r1)"
    by (cases "callWithFailover r ''COMPLIANCE'' (compliance_prompt cont opts) compliance_call_options")
  with assms(3) have o: "out = Inr result" by simp
  have a: "fst (performAIAnalysis pf amb r cont
                 (case o_pageType opts of None \<Rightarrow> ''general'' | Some p \<Rightarrow> p))
             = Inr \<lparr>ai_violations = Items [],
                    ai_model = str_or_lit (a_model result) ''unknown'',
                    ai_confidence = 85 / 100, ai_processing_time = elapsed_ms amb\<rparr>"
    using c o assms(4)
    by (simp add: performAIAnalysis_def compliance_prompt_def compliance_call_options_def)
  show ?thesis
    using a assms(1,2)
    by (auto simp: check_with_rules_def Let_def combineResults_def built_from_rules_def
        score_of_basic merge_violations_def split: prod.splits sum.splits)
qed

lemma check_no_ai:
  assumes "performBasicChecks pf rules cont = Some b"
    and "\<not> ((case o_useAI opts of None \<Rightarrow> True | Some u \<Rightarrow> u) \<and> isAIConfigured r)"
  shows "\<exists>res. check_with_rules pf amb rules r cont opts = Some (Inr res, r)
           \<and> cr_ai_analysis res = None \<and> built_from_rules (double_round pf) rules b res"
  using assms
  by (auto simp: check_with_rules_def Let_def combineResults_def built_from_rules_def
      score_of_basic split: prod.splits sum.splits)

lemma checkCompliance_with_rules:
  assumes "(case ck_rules ck of None \<Rightarrow> rules_file amb | Some rs \<Rightarrow> Some rs) = Some rules"
    and "check_with_rules pf amb rules (ck_router ck) cont opts = Some (out, r1)"
  shows "checkCompliance pf amb ck cont opts = Some (out, \<lparr>ck_router = r1, ck_rules = Some rules\<rparr>)"
  using assms by (simp add: checkCompliance_def)

lemma example_call_returns:
  "fst (callWithFailover (example_router (example_client True (Inr ans)) c2) ''COMPLIANCE'' prm opts)
     = Inr (normalized ans)"
  by (simp add: callWithFailover_unfold [OF example_names(1)] example_names attempt_fst
      example_client_def)

lemma example_call_throws:
  "fst (callWithFailover (example_router (example_client True (Inl e1))
                                         (example_client True (Inl e2))) ''COMPLIANCE'' prm opts)
     = Inl e2"
  by (simp add: callWithFailover_unfold [OF example_names(1)] example_names attempt_fst
      example_client_def truthy_def attempt_frame configured_frame)


lemma example_ai_enabled:
  "ai_enabled (example_checker (example_client True out) c2) example_check_options"
  by (simp add: ai_enabled_def example_checker_def example_check_options_def isAIConfigured_def
      example_router_def example_client_def)

lemma example_rules_loaded:
  "(case ck_rules (example_checker c1 c2) of
      None \<Rightarrow> rules_file (example_ambient (Some rules)) | Some rs \<Rightarrow> Some rs) = Some rules"
  by (simp add: example_checker_def example_ambient_def)

lemma example_not_json:
  "JSON_parse (literal_platform [])
     (a_text (normalized (example_answer ''I am sorry, I cannot analyse this page.''))) = None"
  by (simp add: literal_platform_def table_JSON_parse_def)

text \<open>
  The claim C2 as stated fails in one part. An AI answer that \<^verbatim>\<open>JSON.parse\<close> rejects
  is one of the failures it lists, and it says that the result then has no AI metadata.
  But \<open>performAIAnalysis\<close> replaces such an answer by a fixed analysis without
  violations and returns normally, so the result carries the AI metadata: the model, the
  confidence 0.85 and the processing time.
\<close>

theorem parse_failure_counterexample:
  "JSON_parse (literal_platform [])
     (a_text (normalized (example_answer ''I am sorry, I cannot analyse this page.''))) = None
   \<and> (\<exists>res ck'.
         checkCompliance (literal_platform []) (example_ambient (Some (example_rules 50)))
           (example_checker
              (example_client True (Inr (example_answer ''I am sorry, I cannot analyse this page.'')))
              (example_client False (Inl (Error ''OpenAI API key not configured''))))
           example_content example_check_options = Some (Inr res, ck')
         \<and> cr_ai_analysis res
             = Some \<lparr>model_used = ''example-model'', confidence = 85 / 100,
                     processing_time = 1200\<rparr>
         \<and> cr_ai_analysis res \<noteq> None)"
proof -
  let ?ans = "example_answer ''I am sorry, I cannot analyse this page.''"
  let ?c1 = "example_client True (Inr ?ans)"
  let ?c2 = "example_client False (Inl (Error ''OpenAI API key not configured''))"
  let ?amb = "example_ambient (Some (example_rules 50))"
  have en: "(case o_useAI example_check_options of None \<Rightarrow> True | Some u \<Rightarrow> u)
            \<and> isAIConfigured (ck_router (example_checker ?c1 ?c2))"
    using example_ai_enabled [of "Inr ?ans" ?c2] by (simp add: ai_enabled_def)
  have call: "fst (callWithFailover (ck_router (example_checker ?c1 ?c2)) ''COMPLIANCE''
                (compliance_prompt example_content example_check_options)
                compliance_call_options) = Inr (normalized ?ans)"
    by (simp add: example_checker_def example_call_returns)
  from check_parse_failure [OF example_basic_checks en call example_not_json, of ?amb]
  obtain res r1 where
    c: "check_with_rules (literal_platform []) ?amb (example_rules 50)
          (ck_router (example_checker ?c1 ?c2)) example_content example_check_options
        = Some (Inr res, r1)"
    and a: "cr_ai_analysis res =
               Some \<lparr>model_used = str_or_lit (a_model (normalized ?ans)) ''unknown'',
                     confidence = 85 / 100, processing_time = elapsed_ms ?amb\<rparr>"
    by blast
  have m: "str_or_lit (a_model (normalized ?ans)) ''unknown'' = ''example-model''"
    by (simp add: normalized_def example_answer_def str_or_lit_def)
  have t: "elapsed_ms ?amb = 1200" by (simp add: example_ambient_def)
  from checkCompliance_with_rules [OF example_rules_loaded c] a m t example_not_json
  show ?thesis by auto
qed

text \<open>
  C2, amended. With the rule set available and the rule evaluation ending:
  when the router's call fails (no provider, or the provider's error),
  \<open>checkCompliance\<close> does not throw and returns a result built from the rule-based
  findings alone, with no AI metadata; when the AI analysis runs and its answer is not
  parseable, \<open>checkCompliance\<close> does not throw either and returns a result built from
  the rule-based findings alone, with the AI metadata filled in. When the rule set
  cannot be loaded, the error "Compliance rules not available" is thrown.
\<close>

theorem ai_failure_gives_rule_based_result:
  "((case ck_rules ck of None \<Rightarrow> rules_file amb | Some rs \<Rightarrow> Some rs) = Some rules
      \<and> performBasicChecks pf rules cont = Some b \<longrightarrow>
      (\<forall>e. fst (callWithFailover (ck_router ck) ''COMPLIANCE'' (compliance_prompt cont opts)
                  compliance_call_options) = Inl e \<longrightarrow>
         (\<exists>res ck'. checkCompliance pf amb ck cont opts = Some (Inr res, ck')
             \<and> built_from_rules (double_round pf) rules b res \<and> cr_ai_analysis res = None))
      \<and> (\<forall>result. ai_enabled ck opts
            \<and> fst (callWithFailover (ck_router ck) ''COMPLIANCE'' (compliance_prompt cont opts)
                  compliance_call_options) = Inr result
            \<and> JSON_parse pf (a_text result) = None \<longrightarrow>
         (\<exists>res ck'. checkCompliance pf amb ck cont opts = Some (Inr res, ck')
             \<and> built_from_rules (double_round pf) rules b res
             \<and> cr_ai_analysis res =
                 Some \<lparr>model_used = str_or_lit (a_model result) ''unknown'',
                       confidence = 85 / 100, processing_time = elapsed_ms amb\<rparr>)))
   \<and> (ck_rules ck = None \<and> rules_file amb = None \<longrightarrow>
        checkCompliance pf amb ck cont opts
          = Some (Inl (Error ''Compliance rules not available''), ck))"
proof -
  have 1: "\<exists>res ck'. checkCompliance pf amb ck cont opts = Some (Inr res, ck')
             \<and> built_from_rules (double_round pf) rules b res \<and> cr_ai_analysis res = None"
    if r: "(case ck_rules ck of None \<Rightarrow> rules_file amb | Some rs \<Rightarrow> Some rs) = Some rules"
      and b: "performBasicChecks pf rules cont = Some b"
      and f: "fst (callWithFailover (ck_router ck) ''COMPLIANCE'' (compliance_prompt cont opts)
                  compliance_call_options) = Inl e" for e
    using check_router_failure [OF b f, of amb] checkCompliance_with_rules [OF r] by blast
  have 2: "\<exists>res ck'. checkCompliance pf amb ck cont opts = Some (Inr res, ck')
             \<and> built_from_rules (double_round pf) rules b res
             \<and> cr_ai_analysis res =
                 Some \<lparr>model_used = str_or_lit (a_model result) ''unknown'',
                       confidence = 85 / 100, processing_time = elapsed_ms amb\<rparr>"
    if r: "(case ck_rules ck of None \<Rightarrow> rules_file amb | Some rs \<Rightarrow> Some rs) = Some rules"
      and b: "performBasicChecks pf rules cont = Some b"
      and en: "ai_enabled ck opts"
      and f: "fst (callWithFailover (ck_router ck) ''COMPLIANCE'' (compliance_prompt cont opts)
                  compliance_call_options) = Inr result"
      and j: "JSON_parse pf (a_text result) = None" for result
  proof -
    from en have en': "(case o_useAI opts of None \<Rightarrow> True | Some u \<Rightarrow> u) \<and> isAIConfigured (ck_router ck)"
      by (simp add: ai_enabled_def)
    show ?thesis
      using check_parse_failure [OF b en' f j, of amb] checkCompliance_with_rules [OF r] by blast
  qed
  have 3: "checkCompliance pf amb ck cont opts
          = Some (Inl (Error ''Compliance rules not available''), ck)"
    if "ck_rules ck = None" "rules_file amb = None"
    using that by (simp add: checkCompliance_def)
  from 1 2 3 show ?thesis by blast
qed

theorem ai_failure_gives_rule_based_result_witness:
  "(\<exists>res ck'.
       checkCompliance (literal_platform []) (example_ambient (Some (example_rules 50)))
         (example_checker
            (example_client True (Inl (Error ''Anthropic API error: overloaded'')))
            (example_client True (Inl (Error ''OpenAI API error: rate limit''))))
         example_content example_check_options = Some (Inr res, ck')
       \<and> built_from_rules (double_round (literal_platform [])) (example_rules 50) example_basic res
       \<and> cr_ai_analysis res = None)
   \<and> (\<exists>res ck'.
       checkCompliance (literal_platform []) (example_ambient (Some (example_rules 50)))
         (example_checker
            (example_client True (Inr (example_answer ''I am sorry, I cannot analyse this page.'')))
            (example_client False (Inl (Error ''OpenAI API key not configured''))))
         example_content example_check_options = Some (Inr res, ck')
       \<and> built_from_rules (double_round (literal_platform [])) (example_rules 50) example_basic res
       \<and> cr_ai_analysis res
           = Some \<lparr>model_used = ''example-model'', confidence = 85 / 100,
                   processing_time = 1200\<rparr>)
   \<and> checkCompliance (literal_platform []) (example_ambient None)
         (example_checker
            (example_client True (Inl (Error ''Anthropic API error: overloaded'')))
            (example_client True (Inl (Error ''OpenAI API error: rate limit''))))
         example_content example_check_options
       = Some (Inl (Error ''Compliance rules not available''),
               example_checker
                 (example_client True (Inl (Error ''Anthropic API error: overloaded'')))
                 (example_client True (Inl (Error ''OpenAI API error: rate limit''))))"
proof -
  let ?ans = "example_answer ''I am sorry, I cannot analyse this page.''"
  let ?t1 = "example_client True (Inl (Error ''Anthropic API error: overloaded''))"
  let ?t2 = "example_client True (Inl (Error ''OpenAI API error: rate limit''))"
  let ?c1 = "example_client True (Inr ?ans)"
  let ?c2 = "example_client False (Inl (Error ''OpenAI API key not configured''))"
  let ?amb = "example_ambient (Some (example_rules 50))"
  let ?pf = "literal_platform [] :: literal_regex platform"
  have throws: "fst (callWithFailover (ck_router (example_checker ?t1 ?t2)) ''COMPLIANCE''
                (compliance_prompt example_content example_check_options)
                compliance_call_options) = Inl (Error ''OpenAI API error: rate limit'')"
    by (simp add: example_checker_def example_call_throws)
  have returns: "fst (callWithFailover (ck_router (example_checker ?c1 ?c2)) ''COMPLIANCE''
                (compliance_prompt example_content example_check_options)
                compliance_call_options) = Inr (normalized ?ans)"
    by (simp add: example_checker_def example_call_returns)
  have m: "str_or_lit (a_model (normalized ?ans)) ''unknown'' = ''example-model''"
    by (simp add: normalized_def example_answer_def str_or_lit_def)
  have t: "elapsed_ms ?amb = 1200" by (simp add: example_ambient_def)
  have none: "ck_rules (example_checker ?t1 ?t2) = None \<and> rules_file (example_ambient None) = None"
    by (simp add: example_checker_def example_ambient_def)
  have 1: "\<exists>res ck'.
       checkCompliance ?pf ?amb (example_checker ?t1 ?t2)
         example_content example_check_options = Some (Inr res, ck')
       \<and> built_from_rules (double_round (literal_platform [])) (example_rules 50) example_basic res
       \<and> cr_ai_analysis res = None"
    using ai_failure_gives_rule_based_result
            [where ck = "example_checker ?t1 ?t2" and amb = ?amb and rules = "example_rules 50"
               and pf = ?pf and cont = example_content and b = example_basic
               and opts = example_check_options]
          example_rules_loaded [where ?c1.0 = ?t1 and ?c2.0 = ?t2 and rules = "example_rules 50"]
          example_basic_checks [of "[]" 50] throws
    by blast
  have 2: "\<exists>res ck'.
       checkCompliance ?pf ?amb (example_checker ?c1 ?c2)
         example_content example_check_options = Some (Inr res, ck')
       \<and> built_from_rules (double_round (literal_platform [])) (example_rules 50) example_basic res
       \<and> cr_ai_analysis res
           = Some \<lparr>model_used = ''example-model'', confidence = 85 / 100,
                   processing_time = 1200\<rparr>"
    using ai_failure_gives_rule_based_result
            [where ck = "example_checker ?c1 ?c2" and amb = ?amb and rules = "example_rules 50"
               and pf = ?pf and cont = example_content and b = example_basic
               and opts = example_check_options]
          example_rules_loaded [where ?c1.0 = ?c1 and ?c2.0 = ?c2 and rules = "example_rules 50"]
          example_basic_checks [of "[]" 50] returns example_not_json
          example_ai_enabled [of "Inr ?ans" ?c2]
    unfolding m [symmetric] t [symmetric]
    by blast
  have 3: "checkCompliance ?pf (example_ambient None) (example_checker ?t1 ?t2)
         example_content example_check_options
       = Some (Inl (Error ''Compliance rules not available''), example_checker ?t1 ?t2)"
    using ai_failure_gives_rule_based_result
            [where ck = "example_checker ?t1 ?t2" and amb = "example_ambient None"
               and pf = ?pf and cont = example_content and opts = example_check_options]
          none
    by blast
  from 1 2 3 show ?thesis by blast
qed

end
